theory Spec2Isabelle
  imports Complex_Main "HOL-Library.Log_Nat"
begin

section \<open>Numbers\<close>

text \<open>
  A JavaScript number is an IEEE 754 double. \<open>roundDouble x\<close> is the double nearest to the
  real \<open>x\<close>, ties going to the even significand: for \<open>x > 0\<close> with
  \<open>2^e \<le> x < 2^(e+1)\<close> the doubles around \<open>x\<close> are the multiples of \<open>2^(e-52)\<close>
  (of \<open>2^(-1074)\<close> in the subnormal range). Overflow to infinity is not modelled; the
  values met here are far below it.
\<close>

definition pow2 :: "int \<Rightarrow> real" where
  "pow2 e = (if 0 \<le> e then 2 ^ nat e else 1 / 2 ^ nat (- e))"

text \<open>The exponent \<open>e\<close> with \<open>2^e \<le> x < 2^(e+1)\<close>, for \<open>x > 0\<close>.\<close>

definition binaryExponent :: "real \<Rightarrow> int" where
  "binaryExponent x =
     (if 1 \<le> x then bitlen \<lfloor>x\<rfloor> - 1
      else (let k = bitlen \<lfloor>1 / x\<rfloor> - 1
            in if 1 \<le> x * 2 ^ nat k then - k else - k - 1))"

definition roundHalfEven :: "real \<Rightarrow> int" where
  "roundHalfEven q =
     (let r = \<lfloor>q\<rfloor>; f = q - of_int r
      in if f < 1 / 2 then r
         else if 1 / 2 < f then r + 1
         else if even r then r else r + 1)"

definition roundPositive :: "real \<Rightarrow> real" where
  "roundPositive x =
     (let ulp = pow2 (max (binaryExponent x) (- 1022) - 52)
      in of_int (roundHalfEven (x / ulp)) * ulp)"

definition roundDouble :: "real \<Rightarrow> real" where
  "roundDouble x =
     (if x = 0 then 0 else if x < 0 then - roundPositive (- x) else roundPositive x)"

text \<open>
  The operators \<open>*\<close> and \<open>+\<close> on numbers: each operand is a double (a decimal literal
  or parsed value is the double nearest to it) and the exact result is rounded to a
  double.
\<close>

definition times :: "real \<Rightarrow> real \<Rightarrow> real" where
  "times x y = roundDouble (roundDouble x * roundDouble y)"

definition plus :: "real \<Rightarrow> real \<Rightarrow> real" where
  "plus x y = roundDouble (roundDouble x + roundDouble y)"

section \<open>Configuration\<close>

text \<open>
  The fields of \<open>Config\<close> (commit-analyzer.ts) that the modelled operations read.
  \<open>parseInt\<close> yields integers of either sign, so the integer fields are \<open>int\<close>.
  \<open>parseFloat\<close> yields the two factors: a field holds the decimal value that was parsed,
  and the arithmetic below reads it as the double nearest to it.
\<close>

record Config =
  classificationModel :: string
  initialBatchSize :: int
  minBatchSize :: int
  maxBatchSize :: int
  contextLimitThreshold :: int
  maxRetries :: int
  baseDelay :: int
  growthFactor :: real
  decayFactor :: real
  successThreshold :: int
  diffConcurrency :: int

text \<open>The defaults of \<open>loadAndValidateConfig\<close> when no environment variable is set.\<close>

definition defaultConfig :: Config where
  "defaultConfig =
     \<lparr> classificationModel = ''deepseek/deepseek-r1-distill-llama-70b'',
       initialBatchSize = 16, minBatchSize = 2, maxBatchSize = 128,
       contextLimitThreshold = 30000, maxRetries = 3, baseDelay = 500,
       growthFactor = 3 / 2, decayFactor = 6 / 10, successThreshold = 2,
       diffConcurrency = 4 \<rparr>"

section \<open>Batch management\<close>

text \<open>The private fields of class \<open>BatchManager\<close>.\<close>

record BatchManager =
  currentBatchSize :: int
  consecutiveSuccesses :: int
  consecutiveFailures :: int
  contextOverflowCount :: int

definition newBatchManager :: "Config \<Rightarrow> BatchManager" where
  "newBatchManager cfg =
     \<lparr> currentBatchSize = initialBatchSize cfg, consecutiveSuccesses = 0,
       consecutiveFailures = 0, contextOverflowCount = 0 \<rparr>"

definition getCurrentBatchSize :: "BatchManager \<Rightarrow> int" where
  "getCurrentBatchSize bm = currentBatchSize bm"

text \<open>
  \<open>adjustBatchSize(success, contextOverflow)\<close>: the three branches in the order of the
  source, each statement of a branch applied to the state left by the one before it. The
  products and the sum are those of double arithmetic, and \<open>Math.floor\<close> is taken of the
  rounded product.
\<close>

definition adjustBatchSize :: "Config \<Rightarrow> bool \<Rightarrow> bool \<Rightarrow> BatchManager \<Rightarrow> BatchManager" where
  "adjustBatchSize cfg success contextOverflow bm =
     (if contextOverflow then
        bm \<lparr> contextOverflowCount := contextOverflowCount bm + 1,
             consecutiveFailures := consecutiveFailures bm + 1,
             consecutiveSuccesses := 0,
             currentBatchSize :=
               max (minBatchSize cfg) \<lfloor>times (of_int (currentBatchSize bm)) (decayFactor cfg)\<rfloor> \<rparr>
      else if success then
        (let bm1 = bm \<lparr> consecutiveSuccesses := consecutiveSuccesses bm + 1,
                         consecutiveFailures := 0 \<rparr>
         in if consecutiveSuccesses bm1 \<ge> successThreshold cfg
               \<and> currentBatchSize bm1 < maxBatchSize cfg
            then
              (let newSize = min (maxBatchSize cfg)
                                 \<lfloor>times (of_int (currentBatchSize bm1)) (growthFactor cfg)\<rfloor>
               in if newSize > currentBatchSize bm1
                  then bm1 \<lparr> currentBatchSize := newSize, consecutiveSuccesses := 0 \<rparr>
                  else bm1)
            else bm1)
      else
        (let bm1 = bm \<lparr> consecutiveFailures := consecutiveFailures bm + 1,
                         consecutiveSuccesses := 0 \<rparr>;
             decayRate = min (roundDouble (8 / 10))
                             (plus (decayFactor cfg)
                                   (times (of_int (consecutiveFailures bm1)) (1 / 10)))
         in bm1 \<lparr> currentBatchSize :=
                    max (minBatchSize cfg) \<lfloor>times (of_int (currentBatchSize bm1)) decayRate\<rfloor> \<rparr>))"

text \<open>
  A history of completed batches, each reported as \<open>(success, contextOverflow)\<close>, applied
  to a fresh controller.
\<close>

definition runTransitions :: "Config \<Rightarrow> (bool \<times> bool) list \<Rightarrow> BatchManager" where
  "runTransitions cfg outcomes =
     foldl (\<lambda>bm (success, overflow). adjustBatchSize cfg success overflow bm)
           (newBatchManager cfg) outcomes"

section \<open>Core data types\<close>

text \<open>
  \<open>RawCommit\<close>, \<open>EnrichedCommit = RawCommit & {diff}\<close> and
  \<open>ClassifiedCommit = EnrichedCommit & {conformingPrefix?, suggestedPrefix?, reason?}\<close>;
  an absent optional field is \<open>None\<close>. Strings are lists of \<open>char\<close>, one per code unit.
\<close>

record RawCommit =
  hash :: string
  message :: string

record EnrichedCommit = RawCommit +
  diff :: string

record ClassifiedCommit = EnrichedCommit +
  conformingPrefix :: "string option"
  suggestedPrefix :: "string option"
  reason :: "string option"

text \<open>
  \<open>TransformRule\<close>. The pattern is a \<open>RegExp\<close> object; the regular-expression engine
  belongs to the runtime, so the pattern type is a parameter \<open>'p\<close> and the three uses the
  code makes of it are the fields of \<open>RegExpOps\<close>:
  \<open>pattern.test(s)\<close>, \<open>s.replace(pattern, replacement)\<close> and \<open>s.match(pattern)\<close>
  (\<open>None\<close> for \<open>null\<close>, otherwise the match array, an unset group being \<open>None\<close>).
  The rules of this program are built with the flag \<open>i\<close> only, never \<open>g\<close> or \<open>y\<close>, so
  \<open>test\<close> keeps no state between calls.
\<close>

record 'p TransformRule =
  pattern :: 'p
  replacement :: string
  ruleReason :: string

record 'p RegExpOps =
  test :: "'p \<Rightarrow> string \<Rightarrow> bool"
  replace :: "string \<Rightarrow> 'p \<Rightarrow> string \<Rightarrow> string"
  match :: "string \<Rightarrow> 'p \<Rightarrow> string option list option"

section \<open>String primitives\<close>

text \<open>\<open>s.replace(':', '')\<close>: a string pattern replaces its first occurrence only.\<close>

fun removeFirstColon :: "string \<Rightarrow> string" where
  "removeFirstColon [] = []"
| "removeFirstColon (c # cs) = (if c = CHR '':'' then cs else c # removeFirstColon cs)"

text \<open>\<open>s.trim()\<close> over the white space and line terminators that fit in one byte.\<close>

definition isWhiteSpace :: "char \<Rightarrow> bool" where
  "isWhiteSpace c \<longleftrightarrow> c \<in> set [CHR '' '', CHR 0x09, CHR 0x0A, CHR 0x0B, CHR 0x0C, CHR 0x0D, CHR 0xA0]"

definition trim :: "string \<Rightarrow> string" where
  "trim s = rev (dropWhile isWhiteSpace (rev (dropWhile isWhiteSpace s)))"

text \<open>
  \<open>s.toLowerCase()\<close> on the code units a \<open>char\<close> can hold: the letters A to Z and the
  Latin-1 capitals (\<open>0xC0\<close> to \<open>0xDE\<close>, the multiplication sign \<open>0xD7\<close> excepted) move
  up by 32; every other character is kept.
\<close>

definition toLowerCase :: "string \<Rightarrow> string" where
  "toLowerCase s =
     map (\<lambda>c. let n = (of_char c :: nat)
              in if (65 \<le> n \<and> n \<le> 90) \<or> (192 \<le> n \<and> n \<le> 222 \<and> n \<noteq> 215)
                 then char_of (n + 32) else c) s"

text \<open>Decimal rendering of a number in a template literal.\<close>

fun digitsOf :: "nat \<Rightarrow> string" where
  "digitsOf n = (if n < 10 then [char_of (48 + n)] else digitsOf (n div 10) @ [char_of (48 + n mod 10)])"

text \<open>
  \<open>xs.slice(start, end)\<close>: a negative index counts from the end, both are clamped to
  the array, and an empty range yields the empty array.
\<close>

definition slice :: "'a list \<Rightarrow> int \<Rightarrow> int \<Rightarrow> 'a list" where
  "slice xs start end' =
     (let len = int (length xs);
          k = (if start < 0 then max (len + start) 0 else min start len);
          final = (if end' < 0 then max (len + end') 0 else min end' len)
      in take (nat (final - k)) (drop (nat k) xs))"

section \<open>Rule application\<close>

text \<open>
  The body of the \<open>for (const rule of rules)\<close> loop of \<open>applyTransformRules\<close> for one
  commit: the first rule whose pattern tests true rewrites \<open>result\<close> and ends the loop
  (\<open>break\<close>); a rule that does not match leaves \<open>result\<close> as it is.
\<close>

definition extractPrefix :: "'p RegExpOps \<Rightarrow> 'p TransformRule \<Rightarrow> RawCommit \<Rightarrow> string" where
  "extractPrefix ops rule commit =
     (let suggested = trim (removeFirstColon (replacement rule))
      in if suggested = ''$1'' then
           (case match ops (message commit) (pattern rule) of
              None \<Rightarrow> suggested
            | Some groups \<Rightarrow>
                (if 1 < length groups then
                   (case groups ! 1 of
                      None \<Rightarrow> suggested
                    | Some g \<Rightarrow> if g = [] then suggested else toLowerCase g)
                 else suggested))
         else suggested)"

fun applyRulesLoop ::
  "'p RegExpOps \<Rightarrow> RawCommit \<Rightarrow> ClassifiedCommit \<Rightarrow> 'p TransformRule list \<Rightarrow> ClassifiedCommit" where
  "applyRulesLoop ops commit result [] = result"
| "applyRulesLoop ops commit result (rule # rules) =
     (if test ops (pattern rule) (message commit) then
        (let newMessage = replace ops (message commit) (pattern rule) (replacement rule);
             suggested = extractPrefix ops rule commit
         in result \<lparr> message := newMessage,
                     suggestedPrefix := Some suggested,
                     reason := Some (ruleReason rule) \<rparr>)
      else applyRulesLoop ops commit result rules)"

definition applyTransformRules ::
  "'p RegExpOps \<Rightarrow> RawCommit list \<Rightarrow> 'p TransformRule list \<Rightarrow> ClassifiedCommit list" where
  "applyTransformRules ops commits rules =
     map (\<lambda>commit.
            applyRulesLoop ops commit
              \<lparr> hash = hash commit, message = message commit,
                diff = ''Rule application - no diff available'',
                conformingPrefix = None, suggestedPrefix = None, reason = None \<rparr>
              rules)
         commits"

section \<open>Errors\<close>

text \<open>
  Every \<open>throw\<close> of the modelled code, and every rejection of a runtime call it awaits,
  is one value of this type: the daily limit of \<open>checkRateLimits\<close> (with the limit its
  message reports), the three throws of \<open>callLLMWithRetry\<close>, a rejected \<open>fetch\<close>, a
  response body that cannot be read, and a failed file-system call.
\<close>

datatype error =
    DailyRateLimitExceeded int
  | InsufficientCredits
  | HttpError int string
  | FetchFailed
  | ResponseUnreadable
  | IOError

section \<open>Rate limiting\<close>

text \<open>
  \<open>RateLimitInfo\<close>. Times are the milliseconds of \<open>Date.now()\<close>;
  \<open>creditsRemaining\<close> is \<open>number | null\<close>.
\<close>

record RateLimitInfo =
  requestsThisMinute :: int
  minuteStartTime :: int
  dailyRequests :: int
  dayStartTime :: int
  creditsRemaining :: "real option"
  isFreeTier :: bool

text \<open>The field initialiser of \<open>RateLimitManager\<close>, created at time \<open>now\<close>.\<close>

definition newRateLimitInfo :: "int \<Rightarrow> RateLimitInfo" where
  "newRateLimitInfo now =
     \<lparr> requestsThisMinute = 0, minuteStartTime = now, dailyRequests = 0, dayStartTime = now,
       creditsRemaining = None, isFreeTier = True \<rparr>"

text \<open>
  The two resets at the head of \<open>checkRateLimits\<close>: a window that has run its length is
  restarted at \<open>now\<close> with its counter at 0.
\<close>

definition resetWindows :: "int \<Rightarrow> RateLimitInfo \<Rightarrow> RateLimitInfo" where
  "resetWindows now info =
     (let info1 = (if now - minuteStartTime info \<ge> 60000
                   then info \<lparr> requestsThisMinute := 0, minuteStartTime := now \<rparr> else info)
      in if now - dayStartTime info1 \<ge> 86400000
         then info1 \<lparr> dailyRequests := 0, dayStartTime := now \<rparr> else info1)"

text \<open>
  \<open>creditsRemaining && creditsRemaining >= 10 ? 1000 : 50\<close>: \<open>null\<close> and 0 are
  falsy.
\<close>

definition dailyLimit :: "RateLimitInfo \<Rightarrow> int" where
  "dailyLimit info =
     (case creditsRemaining info of
        None \<Rightarrow> 50
      | Some c \<Rightarrow> if c \<noteq> 0 \<and> c \<ge> 10 then 1000 else 50)"

text \<open>
  The result of \<open>checkRateLimits\<close>: the arguments of the calls to \<open>sleep\<close> it made, in
  order, the state it leaves, and the error it threw, if any.
\<close>

record RateCheck =
  slept :: "int list"
  rateLimitInfo :: RateLimitInfo
  thrown :: "error option"

text \<open>
  \<open>checkRateLimits\<close>. It reads the clock on entry (\<open>now\<close>) and once more after the
  sleep (\<open>nowAfterSleep\<close>); both readings are inputs of the model.
\<close>

definition checkRateLimits :: "int \<Rightarrow> int \<Rightarrow> RateLimitInfo \<Rightarrow> RateCheck" where
  "checkRateLimits now nowAfterSleep info0 =
     (let info1 = resetWindows now info0
      in if isFreeTier info1 then
           (let waitTime = 60000 - (now - minuteStartTime info1);
                sleeps = (if requestsThisMinute info1 \<ge> 20 then [waitTime + 1000] else []);
                info2 = (if requestsThisMinute info1 \<ge> 20
                         then info1 \<lparr> requestsThisMinute := 0, minuteStartTime := nowAfterSleep \<rparr>
                         else info1)
            in if dailyRequests info2 \<ge> dailyLimit info2
               then \<lparr> slept = sleeps, rateLimitInfo = info2,
                      thrown = Some (DailyRateLimitExceeded (dailyLimit info2)) \<rparr>
               else \<lparr> slept = sleeps, rateLimitInfo = info2, thrown = None \<rparr>)
         else \<lparr> slept = [], rateLimitInfo = info1, thrown = None \<rparr>)"

definition recordRequest :: "RateLimitInfo \<Rightarrow> RateLimitInfo" where
  "recordRequest info =
     info \<lparr> requestsThisMinute := requestsThisMinute info + 1,
            dailyRequests := dailyRequests info + 1 \<rparr>"

section \<open>The retrying call\<close>

text \<open>
  What one attempt of \<open>callLLMWithRetry\<close> meets outside the program: the two clock
  readings of its rate check and the fate of its \<open>fetch\<close>. A response carries its status,
  its text and, when \<open>response.json()\<close> and the path \<open>choices[0].message.content\<close> can
  be read, that content (the empty string when the field is absent). The model name and
  the prompt only shape the request; what comes back is the environment's, so they are not
  parameters here.
\<close>

datatype FetchResult =
    FetchRejected
  | Response (status: int) (bodyText: string) (content: "string option")

record Attempt =
  clock :: int
  clockAfterSleep :: int
  fetched :: FetchResult

text \<open>What the call did, in order: a sleep of so many milliseconds, or a request sent.\<close>

datatype event = Slept int | RequestSent

record CallResult =
  outcome :: "error + string"
  rateInfo :: RateLimitInfo
  events :: "event list"

text \<open>\<open>response.ok\<close>.\<close>

definition responseOk :: "int \<Rightarrow> bool" where
  "responseOk st \<longleftrightarrow> 200 \<le> st \<and> st \<le> 299"

text \<open>
  The \<open>try\<close> block of \<open>callLLMWithRetry\<close> after \<open>fetch\<close> has resolved and the request
  has been recorded, up to the point where it returns, throws, or (status 429 with
  retries left) sleeps and calls itself: \<open>Inl None\<close> is that retry, \<open>Inl (Some e)\<close> a
  throw, \<open>Inr s\<close> the returned content (\<open>content || '{}'\<close>).
\<close>

definition handleResponse :: "Config \<Rightarrow> nat \<Rightarrow> int \<Rightarrow> string \<Rightarrow> string option \<Rightarrow> error option + string" where
  "handleResponse cfg retryCount st body cont =
     (if \<not> responseOk st then
        (if st = 429 \<and> int retryCount < maxRetries cfg then Inl None
         else if st = 402 then Inl (Some InsufficientCredits)
         else Inl (Some (HttpError st body)))
      else (case cont of
              None \<Rightarrow> Inl (Some ResponseUnreadable)
            | Some c \<Rightarrow> Inr (if c = [] then ''{}'' else c)))"

text \<open>
  \<open>callLLMWithRetry\<close>. The environment \<open>env\<close> gives the attempt met at each retry
  count. The rate check stands before the \<open>try\<close>, so its error leaves the function at
  once. Everything thrown inside the \<open>try\<close> reaches the \<open>catch\<close>, which sleeps
  \<open>baseDelay * 2^retryCount\<close> and calls the function again while
  \<open>retryCount < maxRetries\<close>, and rethrows otherwise. The recursive calls are returned
  without \<open>await\<close>, so their own failures are not caught a second time.
\<close>

function callLLMWithRetry ::
  "Config \<Rightarrow> (nat \<Rightarrow> Attempt) \<Rightarrow> RateLimitInfo \<Rightarrow> nat \<Rightarrow> CallResult" where
  "callLLMWithRetry cfg env rate retryCount =
     (let a = env retryCount;
          chk = checkRateLimits (clock a) (clockAfterSleep a) rate;
          evs0 = map Slept (slept chk);
          delay = baseDelay cfg * 2 ^ retryCount
      in case thrown chk of
           Some e \<Rightarrow> \<lparr> outcome = Inl e, rateInfo = rateLimitInfo chk, events = evs0 \<rparr>
         | None \<Rightarrow>
             (case fetched a of
                FetchRejected \<Rightarrow>
                  (if int retryCount < maxRetries cfg then
                     (let r = callLLMWithRetry cfg env (rateLimitInfo chk) (retryCount + 1)
                      in r \<lparr> events := evs0 @ [Slept delay] @ events r \<rparr>)
                   else \<lparr> outcome = Inl FetchFailed, rateInfo = rateLimitInfo chk, events = evs0 \<rparr>)
              | Response st body cont \<Rightarrow>
                  (let rate1 = recordRequest (rateLimitInfo chk);
                       evs1 = evs0 @ [RequestSent]
                   in case handleResponse cfg retryCount st body cont of
                        Inr s \<Rightarrow> \<lparr> outcome = Inr s, rateInfo = rate1, events = evs1 \<rparr>
                      | Inl None \<Rightarrow>
                          (let r = callLLMWithRetry cfg env rate1 (retryCount + 1)
                           in r \<lparr> events := evs1 @ [Slept delay] @ events r \<rparr>)
                      | Inl (Some e) \<Rightarrow>
                          (if int retryCount < maxRetries cfg then
                             (let r = callLLMWithRetry cfg env rate1 (retryCount + 1)
                              in r \<lparr> events := evs1 @ [Slept delay] @ events r \<rparr>)
                           else \<lparr> outcome = Inl e, rateInfo = rate1, events = evs1 \<rparr>))))"
  by pat_completeness auto
termination
  by (relation "measure (\<lambda>(cfg, env, rate, retryCount). nat (maxRetries cfg - int retryCount))")
     (auto simp: handleResponse_def split: if_splits option.splits)

section \<open>Bounded concurrency\<close>

text \<open>
  Class \<open>ConcurrencyLimiter\<close> (the same in commit-analyzer.ts and src/utils/async.ts).
  A queued entry is the closure \<open>execute\<close> of a task; the model keeps the task itself.
  The constructor stores the limit and does nothing else.
\<close>

record 'a ConcurrencyLimiter =
  limit :: int
  running :: int
  queue :: "'a list"

definition newConcurrencyLimiter :: "int \<Rightarrow> 'a ConcurrencyLimiter" where
  "newConcurrencyLimiter n = \<lparr> limit = n, running = 0, queue = [] \<rparr>"

text \<open>
  \<open>run(fn)\<close> up to the first suspension: below the limit \<open>execute\<close> is called, which
  counts the task as running and starts it; otherwise \<open>execute\<close> is pushed on the queue.
  The second component is the task started by this call, if any.
\<close>

definition run :: "'a \<Rightarrow> 'a ConcurrencyLimiter \<Rightarrow> 'a ConcurrencyLimiter \<times> 'a option" where
  "run fn cl =
     (if running cl < limit cl
      then (cl \<lparr> running := running cl + 1 \<rparr>, Some fn)
      else (cl \<lparr> queue := queue cl @ [fn] \<rparr>, None))"

text \<open>
  The \<open>finally\<close> block of \<open>execute\<close>, run when a started task settles: the task no
  longer counts as running, and the head of the queue, if there is one, is shifted off
  and executed. The second component is the task started that way.
\<close>

definition taskSettled :: "'a ConcurrencyLimiter \<Rightarrow> 'a ConcurrencyLimiter \<times> 'a option" where
  "taskSettled cl =
     (let cl1 = cl \<lparr> running := running cl - 1 \<rparr>
      in case queue cl1 of
           [] \<Rightarrow> (cl1, None)
         | next # rest \<Rightarrow> (cl1 \<lparr> queue := rest, running := running cl1 + 1 \<rparr>, Some next))"

text \<open>
  A schedule is what happens to a limiter over time: the caller submits a task, or a task
  in flight settles. Only a task that has been started and has not yet settled can settle;
  an action naming any other task does not occur and leaves the state as it is.
\<close>

datatype 'a action = Submit 'a | Settle 'a

record 'a Executor =
  limiter :: "'a ConcurrencyLimiter"
  inFlight :: "'a list"

definition noteStarted :: "'a option \<Rightarrow> 'a list \<Rightarrow> 'a list" where
  "noteStarted started fl = (case started of None \<Rightarrow> fl | Some fn \<Rightarrow> fl @ [fn])"

fun executorStep :: "'a Executor \<Rightarrow> 'a action \<Rightarrow> 'a Executor" where
  "executorStep ex (Submit fn) =
     (let (cl, started) = run fn (limiter ex)
      in \<lparr> limiter = cl, inFlight = noteStarted started (inFlight ex) \<rparr>)"
| "executorStep ex (Settle fn) =
     (if fn \<in> set (inFlight ex) then
        (let (cl, started) = taskSettled (limiter ex)
         in \<lparr> limiter = cl, inFlight = noteStarted started (remove1 fn (inFlight ex)) \<rparr>)
      else ex)"

definition runSchedule :: "int \<Rightarrow> 'a action list \<Rightarrow> 'a Executor" where
  "runSchedule n actions =
     foldl executorStep \<lparr> limiter = newConcurrencyLimiter n, inFlight = [] \<rparr> actions"

text \<open>The tasks a schedule submits, in order.\<close>

fun submitted :: "'a action list \<Rightarrow> 'a list" where
  "submitted [] = []"
| "submitted (Submit fn # as) = fn # submitted as"
| "submitted (Settle fn # as) = submitted as"

section \<open>The cache file\<close>

text \<open>
  The file system is a map from resolved paths to file contents. The model records the
  calls made to \<open>fs\<close> in order. A call can fail: the faults of one \<open>saveCache\<close> say whether
  its \<open>copyFile\<close> rejects and whether its \<open>writeFile\<close> completes. \<open>fs.writeFile\<close> opens
  its target for writing, which empties it, and then writes; when it is cut short after
  \<open>k\<close> characters the target holds those \<open>k\<close> characters and the call rejects.
\<close>

type_synonym FileSystem = "string \<Rightarrow> string option"

datatype FsCall =
    Access string
  | CopyFile string string
  | WriteFile string string
  | Rename string string

record FsFaults =
  copyFails :: bool
  writeStopsAfter :: "nat option"

text \<open>
  \<open>GcaCache\<close>: the two fields \<open>saveCache\<close> assigns, \<open>metadata.cacheSize\<close> and
  \<open>progress.lastUpdateTime\<close>, and all the others together as \<open>otherFields\<close>.
\<close>

record 'd GcaCache =
  otherFields :: 'd
  metadata_cacheSize :: nat
  progress_lastUpdateTime :: string

text \<open>
  What \<open>saveCache\<close> takes from the runtime: \<open>path.resolve\<close>, \<open>JSON.stringify(cache)\<close>,
  \<open>JSON.stringify(data, null, 2)\<close>, \<open>Buffer.byteLength(s, 'utf8')\<close> and
  \<open>new Date().toISOString()\<close>.
\<close>

record 'd Runtime =
  resolve :: "string \<Rightarrow> string"
  stringify :: "'d GcaCache \<Rightarrow> string"
  stringifyIndented :: "'d GcaCache \<Rightarrow> string"
  byteLength :: "string \<Rightarrow> nat"
  isoNow :: string

definition DEFAULT_CACHE_FILE :: string where
  "DEFAULT_CACHE_FILE = ''.gca-cache.json''"

definition BACKUP_CACHE_FILE :: string where
  "BACKUP_CACHE_FILE = ''.gca-cache.backup.json''"

definition getCacheFilePath :: "'d Runtime \<Rightarrow> string option \<Rightarrow> string" where
  "getCacheFilePath rt customPath =
     (case customPath of
        None \<Rightarrow> resolve rt DEFAULT_CACHE_FILE
      | Some p \<Rightarrow> if trim p \<noteq> [] then resolve rt p else resolve rt DEFAULT_CACHE_FILE)"

text \<open>\<open>fileExists\<close>: \<open>fs.access\<close> resolves exactly for a path that is there.\<close>

definition fileExists :: "FileSystem \<Rightarrow> string \<Rightarrow> bool" where
  "fileExists fs filePath \<longleftrightarrow> fs filePath \<noteq> None"

text \<open>
  \<open>writeJsonFile\<close>: one \<open>fs.writeFile\<close> of the indented JSON to the resolved path, and
  no other call. The result is the file system left behind, the calls made and the error
  thrown, if any.
\<close>

definition writeJsonFile ::
  "'d Runtime \<Rightarrow> FsFaults \<Rightarrow> string \<Rightarrow> 'd GcaCache \<Rightarrow> FileSystem
     \<Rightarrow> FileSystem \<times> FsCall list \<times> error option" where
  "writeJsonFile rt faults filePath data fs =
     (let content = stringifyIndented rt data;
          target = resolve rt filePath
      in case writeStopsAfter faults of
           None \<Rightarrow> (fs(target \<mapsto> content), [WriteFile target content], None)
         | Some k \<Rightarrow> (fs(target \<mapsto> take k content), [WriteFile target content], Some IOError))"

text \<open>\<open>moveFile\<close> of src/utils/file.ts, the only caller of \<open>fs.rename\<close> in the program.\<close>

definition moveFile :: "'d Runtime \<Rightarrow> string \<Rightarrow> string \<Rightarrow> FileSystem \<Rightarrow> FileSystem \<times> FsCall list" where
  "moveFile rt source destination fs =
     (let s = resolve rt source; d = resolve rt destination
      in ((fs(d := fs s))(s := None), [Rename s d]))"

record 'd SaveResult =
  fsAfter :: FileSystem
  fsCalls :: "FsCall list"
  savedCache :: "'d GcaCache"
  saveThrown :: "error option"

text \<open>
  \<open>CacheService.saveCache\<close>: the metadata is updated on the cache object; the backup
  sits in a \<open>try\<close> of its own whose \<open>catch\<close> only warns; then \<open>writeJsonFile\<close> writes
  to \<open>filePath\<close> itself, and an error of that write is logged and thrown again.
\<close>

definition saveCache ::
  "'d Runtime \<Rightarrow> FsFaults \<Rightarrow> 'd GcaCache \<Rightarrow> string option \<Rightarrow> FileSystem \<Rightarrow> 'd SaveResult" where
  "saveCache rt faults cache cachePath fs =
     (let filePath = getCacheFilePath rt cachePath;
          cache1 = cache \<lparr> metadata_cacheSize := byteLength rt (stringify rt cache) \<rparr>;
          cache2 = cache1 \<lparr> progress_lastUpdateTime := isoNow rt \<rparr>;
          backupPath = getCacheFilePath rt (Some BACKUP_CACHE_FILE);
          (fs1, calls1) =
            (if fileExists fs filePath then
               (if copyFails faults then fs else fs(backupPath := fs filePath),
                [Access filePath, CopyFile filePath backupPath])
             else (fs, [Access filePath]));
          (fs2, calls2, err) = writeJsonFile rt faults filePath cache2 fs1
      in \<lparr> fsAfter = fs2, fsCalls = calls1 @ calls2, savedCache = cache2, saveThrown = err \<rparr>)"

section \<open>Classification requests\<close>

fun joinWith :: "string \<Rightarrow> string list \<Rightarrow> string" where
  "joinWith sep [] = []"
| "joinWith sep [x] = x"
| "joinWith sep (x # y # ys) = x @ sep @ joinWith sep (y # ys)"

text \<open>
  One entry of the list in the prompt, for the commit at index \<open>i\<close> whose diff has
  already been cut to 800 characters.
\<close>

definition promptEntry :: "nat \<Rightarrow> EnrichedCommit \<Rightarrow> string" where
  \<open>promptEntry i c =
     digitsOf (i + 1) @ ''. Hash: '' @ hash c @ ''\<newline>''
     @ ''   Message: "'' @ message c @ ''"\<newline>''
     @ ''   Diff: '' @ diff c @ (if length (diff c) \<ge> 800 then ''...'' else '''') @ ''\<newline>''\<close>

definition promptHeader :: "nat \<Rightarrow> string" where
  \<open>promptHeader n =
     ''Classify these '' @ digitsOf n
     @ '' commit messages according to conventional commit standards.\<newline>''
     @ ''The available prefixes are: feat, fix, docs, style, refactor, test, chore, build, ci, perf, revert.\<newline>''
     @ ''If a new, logical category emerges, you can suggest it.\<newline>''
     @ ''\<newline>''
     @ ''Commits to classify:\<newline>''\<close>

definition promptFooter :: string where
  \<open>promptFooter =
     ''\<newline>''
     @ ''\<newline>''
     @ ''Respond with a JSON object with this structure:\<newline>''
     @ ''{\<newline>''
     @ ''  "classifications": [\<newline>''
     @ ''    {\<newline>''
     @ ''      "hash": "<commit hash>",\<newline>''
     @ ''      "conformingPrefix": "<the prefix if it conforms, otherwise null>",\<newline>''
     @ ''      "suggestedPrefix": "<your suggested prefix>",\<newline>''
     @ ''      "reason": "<a brief explanation for your suggestion>"\<newline>''
     @ ''    }\<newline>''
     @ ''  ]\<newline>''
     @ ''}''\<close>

definition createClassificationPrompt :: "EnrichedCommit list \<Rightarrow> string" where
  "createClassificationPrompt commits =
     (let commitsWithTruncatedDiffs = map (\<lambda>c. c \<lparr> diff := take 800 (diff c) \<rparr>) commits
      in promptHeader (length commits)
         @ joinWith ''\<newline>''
             (map (\<lambda>(i, c). promptEntry i c) (enumerate 0 commitsWithTruncatedDiffs))
         @ promptFooter)"

text \<open>
  \<open>estimateTokensAccurately\<close>. The tokenizer is a library: \<open>tiktoken model text\<close> is
  the number of tokens it counts, or \<open>None\<close> when \<open>encoding_for_model\<close> or \<open>encode\<close>
  throws (as it does for a model name it does not know); the \<open>catch\<close> then estimates
  \<open>Math.ceil(text.length / 3.5)\<close>.
\<close>

definition estimateTokensAccurately ::
  "(string \<Rightarrow> string \<Rightarrow> nat option) \<Rightarrow> string \<Rightarrow> string \<Rightarrow> int" where
  "estimateTokensAccurately tiktoken text model =
     (case tiktoken model text of
        Some n \<Rightarrow> int n
      | None \<Rightarrow> \<lceil>real (length text) / (35 / 10)\<rceil>)"

text \<open>One element of \<open>result.classifications\<close> in the reply of the service.\<close>

record Classification =
  c_hash :: string
  c_conformingPrefix :: "string option"
  c_suggestedPrefix :: "string option"
  c_reason :: "string option"

definition unclassified :: "EnrichedCommit \<Rightarrow> ClassifiedCommit" where
  "unclassified c =
     \<lparr> hash = hash c, message = message c, diff = diff c,
       conformingPrefix = None, suggestedPrefix = None, reason = None \<rparr>"

text \<open>
  \<open>classifyCommitsBatch\<close>. \<open>parseClassifications\<close> stands for \<open>JSON.parse\<close>, its
  fallback on the text between the outer braces, and the read of \<open>.classifications\<close>:
  \<open>None\<close> when any of them throws or the field is missing. Every such failure, like a
  failed call, ends in the same result: each commit of the batch returned without
  classification fields. The function catches all its errors and always returns.
\<close>

definition classifyCommitsBatch ::
  "Config \<Rightarrow> (string \<Rightarrow> Classification list option) \<Rightarrow> (nat \<Rightarrow> Attempt) \<Rightarrow> RateLimitInfo
     \<Rightarrow> EnrichedCommit list \<Rightarrow> ClassifiedCommit list \<times> RateLimitInfo" where
  "classifyCommitsBatch cfg parseClassifications env rate commits =
     (let r = callLLMWithRetry cfg env rate 0;
          classifiedCommits =
           (case outcome r of
            Inl e \<Rightarrow> map unclassified commits
          | Inr responseContent \<Rightarrow>
              (case parseClassifications responseContent of
                 None \<Rightarrow> map unclassified commits
               | Some classifications \<Rightarrow>
                   map (\<lambda>commit.
                          case List.find (\<lambda>c. c_hash c = hash commit) classifications of
                            Some c \<Rightarrow>
                              \<lparr> hash = hash commit, message = message commit, diff = diff commit,
                                conformingPrefix = c_conformingPrefix c,
                                suggestedPrefix = c_suggestedPrefix c,
                                reason = c_reason c \<rparr>
                          | None \<Rightarrow> unclassified commit)
                       commits))
      in (classifiedCommits, rateInfo r))"

section \<open>The batch processing loop\<close>

text \<open>
  The variables of \<open>processCommitsInAdaptiveBatches\<close>: the cursor \<open>i\<close>, the batch
  number, the batch manager, the results collected so far, and the world outside the
  loop (the rate limiter and the service), which each classification call changes.
\<close>

record 'w LoopState =
  cursor :: nat
  batchNumber :: nat
  batchManager :: BatchManager
  classifiedCommits :: "ClassifiedCommit list"
  world :: 'w

text \<open>\<open>commits.slice(i, i + batchSize)\<close> with the current batch size.\<close>

definition currentBatch :: "EnrichedCommit list \<Rightarrow> 'w LoopState \<Rightarrow> EnrichedCommit list" where
  "currentBatch commits st =
     slice commits (int (cursor st)) (int (cursor st) + getCurrentBatchSize (batchManager st))"

text \<open>\<open>estimatedTokens > config.contextLimitThreshold\<close> for the prompt of a batch.\<close>

definition overflows :: "Config \<Rightarrow> (string \<Rightarrow> string \<Rightarrow> nat option) \<Rightarrow> EnrichedCommit list \<Rightarrow> bool" where
  "overflows cfg tiktoken batch \<longleftrightarrow>
     estimateTokensAccurately tiktoken (createClassificationPrompt batch) (classificationModel cfg)
       > contextLimitThreshold cfg"

text \<open>
  The \<open>catch\<close> block of the loop: the failure is reported to the batch manager, and only
  when that leaves the batch size at the minimum is the batch skipped.
\<close>

definition catchBlock :: "Config \<Rightarrow> EnrichedCommit list \<Rightarrow> 'w LoopState \<Rightarrow> 'w LoopState" where
  "catchBlock cfg batch st =
     (let bm1 = adjustBatchSize cfg False False (batchManager st)
      in if getCurrentBatchSize bm1 = minBatchSize cfg
         then st \<lparr> batchManager := bm1, cursor := cursor st + length batch,
                   batchNumber := batchNumber st + 1 \<rparr>
         else st \<lparr> batchManager := bm1 \<rparr>)"

text \<open>
  One iteration of the \<open>while\<close> loop. \<open>classify w batch\<close> is the call
  \<open>classifyCommitsBatch(config, batch, rateLimitManager)\<close> as the \<open>try\<close> block sees it:
  it changes the world and either returns results or raises. (\<open>classifyCommitsBatch\<close>
  itself never raises; the loop is modelled for any callee so that its \<open>catch\<close> block is
  covered.) The pauses between batches are not modelled.
\<close>

definition loopBody ::
  "Config \<Rightarrow> (string \<Rightarrow> string \<Rightarrow> nat option)
     \<Rightarrow> ('w \<Rightarrow> EnrichedCommit list \<Rightarrow> (error + ClassifiedCommit list) \<times> 'w)
     \<Rightarrow> EnrichedCommit list \<Rightarrow> 'w LoopState \<Rightarrow> 'w LoopState" where
  "loopBody cfg tiktoken classify commits st =
     (let batch = currentBatch commits st
      in if overflows cfg tiktoken batch then
           (let st1 = st \<lparr> batchManager := adjustBatchSize cfg False True (batchManager st) \<rparr>
            in if getCurrentBatchSize (batchManager st1) = minBatchSize cfg \<and> length batch = 1
               then
                 (let truncatedBatch = map (\<lambda>c. c \<lparr> diff := take 200 (diff c) \<rparr>) batch
                  in case classify (world st1) truncatedBatch of
                       (Inr batchResults, w) \<Rightarrow>
                         st1 \<lparr> world := w,
                               classifiedCommits := classifiedCommits st1 @ batchResults,
                               cursor := cursor st1 + length batch,
                               batchNumber := batchNumber st1 + 1 \<rparr>
                     | (Inl e, w) \<Rightarrow> catchBlock cfg batch (st1 \<lparr> world := w \<rparr>))
               else st1)
         else
           (case classify (world st) batch of
              (Inr batchResults, w) \<Rightarrow>
                st \<lparr> world := w,
                     classifiedCommits := classifiedCommits st @ batchResults,
                     batchManager := adjustBatchSize cfg True False (batchManager st),
                     cursor := cursor st + length batch,
                     batchNumber := batchNumber st + 1 \<rparr>
            | (Inl e, w) \<Rightarrow> catchBlock cfg batch (st \<lparr> world := w \<rparr>)))"

text \<open>
  \<open>while (i < commits.length)\<close>, run for at most \<open>fuel\<close> iterations: \<open>None\<close> means
  the loop was still running when the fuel ran out.
\<close>

fun processLoop ::
  "Config \<Rightarrow> (string \<Rightarrow> string \<Rightarrow> nat option)
     \<Rightarrow> ('w \<Rightarrow> EnrichedCommit list \<Rightarrow> (error + ClassifiedCommit list) \<times> 'w)
     \<Rightarrow> EnrichedCommit list \<Rightarrow> nat \<Rightarrow> 'w LoopState \<Rightarrow> 'w LoopState option" where
  "processLoop cfg tiktoken classify commits 0 st =
     (if cursor st < length commits then None else Some st)"
| "processLoop cfg tiktoken classify commits (Suc fuel) st =
     (if cursor st < length commits
      then processLoop cfg tiktoken classify commits fuel (loopBody cfg tiktoken classify commits st)
      else Some st)"

definition initialLoopState :: "Config \<Rightarrow> 'w \<Rightarrow> 'w LoopState" where
  "initialLoopState cfg w =
     \<lparr> cursor = 0, batchNumber = 1, batchManager = newBatchManager cfg,
       classifiedCommits = [], world = w \<rparr>"

text \<open>
  \<open>processCommitsInAdaptiveBatches\<close>: the loop from the initial state, returning the
  collected results. \<open>w\<close> is the world after \<open>updateApiKeyInfo\<close>.
\<close>

definition processCommitsInAdaptiveBatches ::
  "Config \<Rightarrow> (string \<Rightarrow> string \<Rightarrow> nat option)
     \<Rightarrow> ('w \<Rightarrow> EnrichedCommit list \<Rightarrow> (error + ClassifiedCommit list) \<times> 'w)
     \<Rightarrow> nat \<Rightarrow> EnrichedCommit list \<Rightarrow> 'w \<Rightarrow> ClassifiedCommit list option" where
  "processCommitsInAdaptiveBatches cfg tiktoken classify fuel commits w =
     map_option classifiedCommits
       (processLoop cfg tiktoken classify commits fuel (initialLoopState cfg w))"

text \<open>
  The callee of the source as a \<open>classify\<close> of the loop. The world is the rate limiter
  state and the number of calls made so far; \<open>envs k\<close> is what the \<open>k\<close>-th call meets.
\<close>

definition classifyCall ::
  "Config \<Rightarrow> (string \<Rightarrow> Classification list option) \<Rightarrow> (nat \<Rightarrow> nat \<Rightarrow> Attempt)
     \<Rightarrow> RateLimitInfo \<times> nat \<Rightarrow> EnrichedCommit list
     \<Rightarrow> (error + ClassifiedCommit list) \<times> (RateLimitInfo \<times> nat)" where
  "classifyCall cfg parseClassifications envs w batch =
     (let (results, rate) = classifyCommitsBatch cfg parseClassifications (envs (snd w)) (fst w) batch
      in (Inr results, (rate, snd w + 1)))"


section \<open>Properties of the batch controller\<close>

text \<open>Rounding to a double never passes an integer below \<open>2^53\<close>, and keeps the sign.\<close>

lemma pow2_pos: "0 < pow2 e"
  by (simp add: pow2_def)

lemma roundHalfEven_nonneg:
  assumes "0 \<le> q"
  shows "0 \<le> roundHalfEven q"
proof -
  have "0 \<le> \<lfloor>q\<rfloor>" using assms by simp
  then show ?thesis by (simp add: roundHalfEven_def Let_def)
qed

lemma roundHalfEven_le:
  assumes "q \<le> of_int N"
  shows "roundHalfEven q \<le> N"
proof -
  have le: "\<lfloor>q\<rfloor> \<le> N" using assms by (simp add: floor_le_iff)
  show ?thesis
  proof (cases "\<lfloor>q\<rfloor> = N")
    case True
    then have "q - of_int \<lfloor>q\<rfloor> \<le> 0" using assms by simp
    then have "q - of_int \<lfloor>q\<rfloor> < 1 / 2" by linarith
    then show ?thesis using True by (simp add: roundHalfEven_def Let_def)
  next
    case False
    with le have "\<lfloor>q\<rfloor> + 1 \<le> N" by linarith
    then show ?thesis using le by (simp add: roundHalfEven_def Let_def)
  qed
qed

lemma binaryExponent_le:
  assumes "0 < x" and "x < 2 ^ 53"
  shows "binaryExponent x \<le> 52"
proof (cases "1 \<le> x")
  case True
  let ?m = "\<lfloor>x\<rfloor>"
  have pos: "0 < ?m" using True by simp
  have "(2::int) ^ nat (bitlen ?m - 1) \<le> ?m" using bitlen_bounds[OF pos] by simp
  moreover have "?m < 2 ^ 53"
  proof -
    have "x < of_int (2 ^ 53)" using assms(2) by simp
    then show ?thesis by (simp only: floor_less_iff)
  qed
  ultimately have small: "(2::int) ^ nat (bitlen ?m - 1) < 2 ^ 53" by linarith
  have "(1::int) < 2" by simp
  from power_less_imp_less_exp[OF this small]
  have "nat (bitlen ?m - 1) < 53" .
  then show ?thesis using True by (simp add: binaryExponent_def)
next
  case False
  let ?m = "\<lfloor>1 / x\<rfloor>"
  have "1 \<le> 1 / x" using False assms(1) by simp
  then have pos: "0 < ?m" by simp
  then have "bitlen ?m \<noteq> 0" by (simp add: bitlen_eq_zero_iff)
  then have "1 \<le> bitlen ?m" using bitlen_nonneg[of ?m] by linarith
  then show ?thesis using False by (simp add: binaryExponent_def Let_def)
qed

lemma roundPositive_nonneg:
  assumes "0 \<le> x"
  shows "0 \<le> roundPositive x"
proof -
  define ulp where "ulp = pow2 (max (binaryExponent x) (- 1022) - 52)"
  have u: "0 < ulp" unfolding ulp_def by (rule pow2_pos)
  then have "0 \<le> x / ulp" using assms by simp
  then have "0 \<le> roundHalfEven (x / ulp)" by (rule roundHalfEven_nonneg)
  then have "0 \<le> of_int (roundHalfEven (x / ulp)) * ulp" using u by simp
  then show ?thesis by (simp add: roundPositive_def ulp_def Let_def)
qed

lemma roundPositive_le:
  assumes "0 < x" and "x \<le> of_int n" and "n < 2 ^ 53"
  shows "roundPositive x \<le> of_int n"
proof -
  define e where "e = max (binaryExponent x) (- 1022)"
  define j where "j = nat (52 - e)"
  have "x < 2 ^ 53"
  proof -
    have "(of_int n :: real) < of_int (2 ^ 53)" using assms(3) by (simp only: of_int_less_iff)
    then show ?thesis using assms(2) by simp
  qed
  then have "binaryExponent x \<le> 52" using assms(1) by (intro binaryExponent_le)
  then have e52: "e \<le> 52" by (simp add: e_def)
  have ulp: "pow2 (e - 52) = 1 / 2 ^ j"
  proof (cases "e = 52")
    case True
    then show ?thesis by (simp add: pow2_def j_def)
  next
    case False
    with e52 have "e - 52 < 0" by simp
    then show ?thesis by (simp add: pow2_def j_def)
  qed
  have "x / (1 / 2 ^ j) = x * 2 ^ j" by simp
  also have "\<dots> \<le> of_int n * 2 ^ j" using assms(2) by simp
  also have "\<dots> = of_int (n * 2 ^ j)" by simp
  finally have "roundHalfEven (x / (1 / 2 ^ j)) \<le> n * 2 ^ j" by (rule roundHalfEven_le)
  then have "(of_int (roundHalfEven (x / (1 / 2 ^ j))) :: real) \<le> of_int (n * 2 ^ j)"
    by (simp only: of_int_le_iff)
  then have "of_int (roundHalfEven (x / (1 / 2 ^ j))) * (1 / 2 ^ j) \<le> (of_int n :: real)"
    by (simp add: field_simps)
  then show ?thesis by (simp add: roundPositive_def Let_def e_def[symmetric] ulp)
qed

lemma roundDouble_nonneg:
  assumes "0 \<le> x"
  shows "0 \<le> roundDouble x"
  using assms roundPositive_nonneg[of x] by (simp add: roundDouble_def)

lemma roundDouble_le:
  assumes "0 \<le> x" and "x \<le> of_int n" and "n < 2 ^ 53"
  shows "roundDouble x \<le> of_int n"
proof (cases "x = 0")
  case True
  then show ?thesis using assms(2) by (simp add: roundDouble_def)
next
  case False
  with assms(1) have "0 < x" by simp
  then show ?thesis
    using roundPositive_le[OF _ assms(2,3)] by (simp add: roundDouble_def)
qed

lemma roundDouble_le_one:
  assumes "0 \<le> r" and "r \<le> 1"
  shows "roundDouble r \<le> 1"
  using roundDouble_le[of r 1] assms by simp

lemma floor_times_bounds:
  fixes n :: int and r :: real
  assumes "0 \<le> n" "n < 2 ^ 53" "0 \<le> r" "r \<le> 1"
  shows "0 \<le> \<lfloor>times (of_int n) r\<rfloor> \<and> \<lfloor>times (of_int n) r\<rfloor> \<le> n"
proof -
  define a where "a = roundDouble (of_int n)"
  define b where "b = roundDouble r"
  have a0: "0 \<le> a" unfolding a_def using assms(1) by (intro roundDouble_nonneg) simp
  have an: "a \<le> of_int n" unfolding a_def using assms(1,2) by (intro roundDouble_le) simp_all
  have b0: "0 \<le> b" unfolding b_def using assms(3) by (rule roundDouble_nonneg)
  have b1: "b \<le> 1" unfolding b_def using assms(3,4) by (rule roundDouble_le_one)
  have p0: "0 \<le> a * b" using a0 b0 by simp
  have "a * b \<le> a * 1" using b1 a0 by (rule mult_left_mono)
  then have pn: "a * b \<le> of_int n" using an by simp
  have lo: "0 \<le> roundDouble (a * b)" using p0 by (rule roundDouble_nonneg)
  have hi: "roundDouble (a * b) \<le> of_int n" using p0 pn assms(2) by (rule roundDouble_le)
  have "0 \<le> \<lfloor>roundDouble (a * b)\<rfloor>" using lo by simp
  moreover have "\<lfloor>roundDouble (a * b)\<rfloor> \<le> n"
  proof -
    have "roundDouble (a * b) < of_int n + 1" using hi by simp
    then show ?thesis by (simp add: floor_le_iff)
  qed
  ultimately show ?thesis by (simp add: times_def a_def b_def)
qed

text \<open>
  One transition keeps a non-negative size between the bounds. The failure counter is
  carried along because the escalated decay rate reads it.
\<close>

lemma adjustBatchSize_keeps_bounds:
  assumes d: "0 < decayFactor cfg" "decayFactor cfg < 1"
    and safe: "maxBatchSize cfg < 2 ^ 53"
    and n0: "0 \<le> currentBatchSize bm" and f0: "0 \<le> consecutiveFailures bm"
    and lo: "minBatchSize cfg \<le> currentBatchSize bm"
    and hi: "currentBatchSize bm \<le> maxBatchSize cfg"
  shows "0 \<le> currentBatchSize (adjustBatchSize cfg success overflow bm)
       \<and> 0 \<le> consecutiveFailures (adjustBatchSize cfg success overflow bm)
       \<and> minBatchSize cfg \<le> currentBatchSize (adjustBatchSize cfg success overflow bm)
       \<and> currentBatchSize (adjustBatchSize cfg success overflow bm) \<le> maxBatchSize cfg"
proof -
  let ?n = "currentBatchSize bm"
  have n53: "?n < 2 ^ 53" using hi safe by linarith
  show ?thesis
  proof (cases overflow)
    case True
    define k where "k = \<lfloor>times (of_int ?n) (decayFactor cfg)\<rfloor>"
    have "0 \<le> k \<and> k \<le> ?n"
      unfolding k_def using n0 n53 d by (intro floor_times_bounds) simp_all
    then have "0 \<le> max (minBatchSize cfg) k" "max (minBatchSize cfg) k \<le> maxBatchSize cfg"
      using lo hi by linarith+
    with True f0 show ?thesis
      by (simp add: adjustBatchSize_def k_def)
  next
    case False
    note nov = this
    show ?thesis
    proof (cases success)
      case True
      with nov n0 lo hi show ?thesis
        by (auto simp add: adjustBatchSize_def Let_def simp del: zero_le_floor)
    next
      case False
      define r where
        "r = min (roundDouble (8 / 10))
                 (plus (decayFactor cfg) (times (of_int (consecutiveFailures bm + 1)) (1 / 10)))"
      define k where "k = \<lfloor>times (of_int ?n) r\<rfloor>"
      have "(0::real) \<le> of_int (consecutiveFailures bm + 1)" using f0 by simp
      then have c0: "0 \<le> roundDouble (of_int (consecutiveFailures bm + 1))"
        by (rule roundDouble_nonneg)
      have "(0::real) \<le> 1 / 10" by simp
      then have t0: "0 \<le> roundDouble (1 / 10)" by (rule roundDouble_nonneg)
      have "0 \<le> roundDouble (of_int (consecutiveFailures bm + 1)) * roundDouble (1 / 10)"
        using c0 t0 by (rule mult_nonneg_nonneg)
      then have p0: "0 \<le> times (of_int (consecutiveFailures bm + 1)) (1 / 10)"
        unfolding times_def by (rule roundDouble_nonneg)
      then have p1: "0 \<le> roundDouble (times (of_int (consecutiveFailures bm + 1)) (1 / 10))"
        by (rule roundDouble_nonneg)
      have "0 \<le> decayFactor cfg" using d(1) by simp
      then have d0: "0 \<le> roundDouble (decayFactor cfg)" by (rule roundDouble_nonneg)
      have "0 \<le> roundDouble (decayFactor cfg)
                 + roundDouble (times (of_int (consecutiveFailures bm + 1)) (1 / 10))"
        using d0 p1 by (rule add_nonneg_nonneg)
      then have s0: "0 \<le> plus (decayFactor cfg) (times (of_int (consecutiveFailures bm + 1)) (1 / 10))"
        unfolding plus_def by (rule roundDouble_nonneg)
      have "(0::real) \<le> 8 / 10" by simp
      then have e0: "0 \<le> roundDouble (8 / 10)" by (rule roundDouble_nonneg)
      have r0: "0 \<le> r" unfolding r_def using e0 s0 by (rule min.boundedI)
      have "r \<le> roundDouble (8 / 10)" unfolding r_def by (rule min.cobounded1)
      moreover have "roundDouble (8 / 10) \<le> 1" by (intro roundDouble_le_one) simp_all
      ultimately have r1: "r \<le> 1" by linarith
      have "0 \<le> k \<and> k \<le> ?n"
        unfolding k_def using n0 n53 r0 r1 by (intro floor_times_bounds)
      then have "0 \<le> max (minBatchSize cfg) k" "max (minBatchSize cfg) k \<le> maxBatchSize cfg"
        using lo hi by linarith+
      with False nov f0 show ?thesis
        by (simp add: adjustBatchSize_def Let_def r_def k_def)
    qed
  qed
qed

lemma foldl_adjustBatchSize_keeps_bounds:
  assumes d: "0 < decayFactor cfg" "decayFactor cfg < 1"
    and safe: "maxBatchSize cfg < 2 ^ 53"
  shows "0 \<le> currentBatchSize bm \<and> 0 \<le> consecutiveFailures bm
          \<and> minBatchSize cfg \<le> currentBatchSize bm \<and> currentBatchSize bm \<le> maxBatchSize cfg
     \<Longrightarrow> minBatchSize cfg
           \<le> currentBatchSize
                (foldl (\<lambda>bm (success, overflow). adjustBatchSize cfg success overflow bm) bm outcomes)
       \<and> currentBatchSize
            (foldl (\<lambda>bm (success, overflow). adjustBatchSize cfg success overflow bm) bm outcomes)
           \<le> maxBatchSize cfg"
proof (induction outcomes arbitrary: bm)
  case Nil
  then show ?case by simp
next
  case (Cons e es)
  obtain s v where e: "e = (s, v)" by (cases e)
  have "0 \<le> currentBatchSize (adjustBatchSize cfg s v bm)
       \<and> 0 \<le> consecutiveFailures (adjustBatchSize cfg s v bm)
       \<and> minBatchSize cfg \<le> currentBatchSize (adjustBatchSize cfg s v bm)
       \<and> currentBatchSize (adjustBatchSize cfg s v bm) \<le> maxBatchSize cfg"
    using Cons.prems by (intro adjustBatchSize_keeps_bounds d safe) simp_all
  from Cons.IH[OF this] show ?case by (simp add: e)
qed

text \<open>
  C5. For valid controller parameters, \<open>min \<le> initial \<le> max\<close>, \<open>growthFactor > 1\<close>,
  \<open>0 < decayFactor < 1\<close> and \<open>successThreshold \<ge> 1\<close>, the sizes being counts (not
  negative, and within the integers a number holds exactly, below \<open>2^53\<close>), the batch size
  stays between \<open>min\<close> and \<open>max\<close> after any sequence of \<open>adjustBatchSize\<close> transitions
  from the initial state.
\<close>

theorem batch_size_within_bounds:
  assumes "0 \<le> initialBatchSize cfg" and "maxBatchSize cfg < 2 ^ 53"
    and "minBatchSize cfg \<le> initialBatchSize cfg" and "initialBatchSize cfg \<le> maxBatchSize cfg"
    and "1 < growthFactor cfg" and "0 < decayFactor cfg" and "decayFactor cfg < 1"
    and "1 \<le> successThreshold cfg"
  shows "minBatchSize cfg \<le> currentBatchSize (runTransitions cfg outcomes)
       \<and> currentBatchSize (runTransitions cfg outcomes) \<le> maxBatchSize cfg"
  unfolding runTransitions_def
  using assms(1,3,4)
  by (intro foldl_adjustBatchSize_keeps_bounds assms(2,6,7)) (simp add: newBatchManager_def)

text \<open>
  The default parameters satisfy every hypothesis; two successes, an overflow and a
  failure take the size 16 to 24, 14 and then 11.
\<close>

theorem batch_size_within_bounds_witness:
  "minBatchSize defaultConfig
     \<le> currentBatchSize (runTransitions defaultConfig
          [(True, False), (True, False), (False, True), (False, False)])
   \<and> currentBatchSize (runTransitions defaultConfig
          [(True, False), (True, False), (False, True), (False, False)])
     \<le> maxBatchSize defaultConfig
   \<and> currentBatchSize (runTransitions defaultConfig
          [(True, False), (True, False), (False, True), (False, False)]) = 11"
proof -
  have b: "minBatchSize defaultConfig
     \<le> currentBatchSize (runTransitions defaultConfig
          [(True, False), (True, False), (False, True), (False, False)])
   \<and> currentBatchSize (runTransitions defaultConfig
          [(True, False), (True, False), (False, True), (False, False)])
     \<le> maxBatchSize defaultConfig"
    by (rule batch_size_within_bounds) (simp_all add: defaultConfig_def)
  have "currentBatchSize (runTransitions defaultConfig
          [(True, False), (True, False), (False, True), (False, False)]) = 11"
    by code_simp
  with b show ?thesis by simp
qed

text \<open>
  C6 (as amended). A transition with \<open>contextOverflow = true\<close>, whatever the success
  flag, sets the size to \<open>max(min, floor(size * decayFactor))\<close>, the product being the
  double product the code computes, resets
  \<open>consecutiveSuccesses\<close> to 0, increments \<open>contextOverflowCount\<close> and also increments
  \<open>consecutiveFailures\<close>; nothing else changes.
\<close>

theorem overflow_transition_effect:
  "adjustBatchSize cfg success True bm =
     \<lparr> currentBatchSize =
         max (minBatchSize cfg) \<lfloor>times (of_int (currentBatchSize bm)) (decayFactor cfg)\<rfloor>,
       consecutiveSuccesses = 0,
       consecutiveFailures = consecutiveFailures bm + 1,
       contextOverflowCount = contextOverflowCount bm + 1 \<rparr>"
  by (simp add: adjustBatchSize_def)

text \<open>
  C6 as stated fails: an overflow on a fresh controller leaves \<open>consecutiveFailures\<close> at
  1, not at its previous value 0.
\<close>

theorem overflow_failures_counterexample:
  "consecutiveFailures (newBatchManager defaultConfig) = 0
   \<and> consecutiveFailures (adjustBatchSize defaultConfig True True (newBatchManager defaultConfig)) = 1"
  by (simp add: adjustBatchSize_def newBatchManager_def)

text \<open>
  C7 (as amended). A success transition without overflow increments
  \<open>consecutiveSuccesses\<close> and resets \<open>consecutiveFailures\<close> to 0. Growth to
  \<open>min(max, floor(size * growthFactor))\<close>, the product being the double product the code
  computes, fires if and only if the incremented counter
  has reached \<open>successThreshold\<close>, the size is below \<open>max\<close> and the grown size is larger
  than the current one; when it fires the counter is reset to 0, and when it does not the
  size is unchanged and the counter keeps its incremented value.
\<close>

theorem success_transition_effect:
  "adjustBatchSize cfg True False bm =
     (let grown = min (maxBatchSize cfg)
                      \<lfloor>times (of_int (currentBatchSize bm)) (growthFactor cfg)\<rfloor>;
          fires = (successThreshold cfg \<le> consecutiveSuccesses bm + 1
                   \<and> currentBatchSize bm < maxBatchSize cfg
                   \<and> currentBatchSize bm < grown)
      in \<lparr> currentBatchSize = (if fires then grown else currentBatchSize bm),
           consecutiveSuccesses = (if fires then 0 else consecutiveSuccesses bm + 1),
           consecutiveFailures = 0,
           contextOverflowCount = contextOverflowCount bm \<rparr>)"
  by (simp add: adjustBatchSize_def Let_def)

text \<open>
  C7 as stated fails once the size has reached \<open>max\<close>: with the default parameters
  twelve successes grow the size to 128; the fourteenth success brings the counter to the
  threshold 2, yet nothing fires and the counter is left at 2 instead of 0.
\<close>

theorem growth_at_max_counterexample:
  "currentBatchSize (runTransitions defaultConfig (replicate 13 (True, False))) = 128
   \<and> successThreshold defaultConfig
       \<le> consecutiveSuccesses (runTransitions defaultConfig (replicate 13 (True, False))) + 1
   \<and> consecutiveSuccesses (runTransitions defaultConfig (replicate 14 (True, False))) = 2"
  by code_simp

section \<open>Properties of rule application\<close>

lemma applyRulesLoop_hash: "hash (applyRulesLoop ops commit result rules) = hash result"
  by (induction rules) (simp_all add: Let_def)

lemma applyRulesLoop_message:
  "message (applyRulesLoop ops commit result rules) =
     (case List.find (\<lambda>rule. test ops (pattern rule) (message commit)) rules of
        None \<Rightarrow> message result
      | Some rule \<Rightarrow> replace ops (message commit) (pattern rule) (replacement rule))"
  by (induction rules) (simp_all add: Let_def)

lemma applyRulesLoop_reason:
  "reason (applyRulesLoop ops commit result rules) =
     (case List.find (\<lambda>rule. test ops (pattern rule) (message commit)) rules of
        None \<Rightarrow> reason result
      | Some rule \<Rightarrow> Some (ruleReason rule))"
  by (induction rules) (simp_all add: Let_def)

text \<open>
  C10. \<open>applyTransformRules\<close> returns one result per commit, in the order of its input
  (the hashes of the results are the hashes of the commits). The message of each result
  is that of its commit rewritten by the first rule of the list whose pattern matches it,
  and by no other rule; a commit matched by no rule keeps its message and gets no reason.
\<close>

theorem applyTransformRules_first_match:
  "length (applyTransformRules ops commits rules) = length commits
   \<and> map hash (applyTransformRules ops commits rules) = map hash commits
   \<and> map message (applyTransformRules ops commits rules) =
       map (\<lambda>commit.
              case List.find (\<lambda>rule. test ops (pattern rule) (message commit)) rules of
                None \<Rightarrow> message commit
              | Some rule \<Rightarrow> replace ops (message commit) (pattern rule) (replacement rule))
           commits
   \<and> map reason (applyTransformRules ops commits rules) =
       map (\<lambda>commit.
              case List.find (\<lambda>rule. test ops (pattern rule) (message commit)) rules of
                None \<Rightarrow> None
              | Some rule \<Rightarrow> Some (ruleReason rule))
           commits"
  by (simp add: applyTransformRules_def applyRulesLoop_hash applyRulesLoop_message
      applyRulesLoop_reason comp_def split: option.splits)

section \<open>Properties of the rate limiter\<close>

lemma resetWindows_isFreeTier: "isFreeTier (resetWindows now info0) = isFreeTier info0"
  by (simp add: resetWindows_def Let_def)

text \<open>
  C8 (as amended). On the free tier, with the counters read after the expired windows have
  been restarted: if the per-day count has reached the daily limit, \<open>checkRateLimits\<close>
  throws the daily-limit error in every case, and it does so without sleeping when the
  per-minute count has not reached 20 (when both limits are reached it first sleeps the
  time left in the minute window plus 1000 ms and restarts the minute window, and then
  throws); if the per-minute count has reached 20 and the per-day count has not reached
  the daily limit, it sleeps the time left in the minute window plus 1000 ms, resets the
  minute counter, restarts the minute window at the new clock reading and returns
  normally.
\<close>

theorem checkRateLimits_free_tier:
  assumes "isFreeTier info0"
  shows "(dailyLimit (resetWindows now info0) \<le> dailyRequests (resetWindows now info0)
          \<longrightarrow> checkRateLimits now nowAfterSleep info0 =
                \<lparr> slept = (if 20 \<le> requestsThisMinute (resetWindows now info0)
                           then [60000 - (now - minuteStartTime (resetWindows now info0)) + 1000]
                           else []),
                  rateLimitInfo = (if 20 \<le> requestsThisMinute (resetWindows now info0)
                           then (resetWindows now info0)
                                  \<lparr> requestsThisMinute := 0, minuteStartTime := nowAfterSleep \<rparr>
                           else resetWindows now info0),
                  thrown = Some (DailyRateLimitExceeded (dailyLimit (resetWindows now info0))) \<rparr>)
       \<and> (20 \<le> requestsThisMinute (resetWindows now info0)
            \<and> dailyRequests (resetWindows now info0) < dailyLimit (resetWindows now info0)
          \<longrightarrow> checkRateLimits now nowAfterSleep info0 =
                \<lparr> slept = [60000 - (now - minuteStartTime (resetWindows now info0)) + 1000],
                  rateLimitInfo = (resetWindows now info0)
                     \<lparr> requestsThisMinute := 0, minuteStartTime := nowAfterSleep \<rparr>,
                  thrown = None \<rparr>)"
  using assms
  by (simp add: checkRateLimits_def Let_def resetWindows_isFreeTier dailyLimit_def)

text \<open>
  The cases at concrete states, 30 seconds into the minute window: 50 requests today and
  3 this minute throw at once; 50 today and 20 this minute sleep \<open>30000 + 1000\<close> ms and
  then throw; 20 this minute and 20 today sleep \<open>30000 + 1000\<close> ms and return.
\<close>

theorem checkRateLimits_free_tier_witness:
  "isFreeTier ((newRateLimitInfo 0) \<lparr> requestsThisMinute := 3, dailyRequests := 50 \<rparr>)
   \<and> checkRateLimits 30000 61000 ((newRateLimitInfo 0) \<lparr> requestsThisMinute := 3, dailyRequests := 50 \<rparr>) =
       \<lparr> slept = [],
         rateLimitInfo = (newRateLimitInfo 0) \<lparr> requestsThisMinute := 3, dailyRequests := 50 \<rparr>,
         thrown = Some (DailyRateLimitExceeded 50) \<rparr>
   \<and> checkRateLimits 30000 61000 ((newRateLimitInfo 0) \<lparr> requestsThisMinute := 20, dailyRequests := 50 \<rparr>) =
       \<lparr> slept = [31000],
         rateLimitInfo = (newRateLimitInfo 0)
            \<lparr> requestsThisMinute := 0, minuteStartTime := 61000, dailyRequests := 50 \<rparr>,
         thrown = Some (DailyRateLimitExceeded 50) \<rparr>
   \<and> checkRateLimits 30000 61000 ((newRateLimitInfo 0) \<lparr> requestsThisMinute := 20, dailyRequests := 20 \<rparr>) =
       \<lparr> slept = [31000],
         rateLimitInfo = (newRateLimitInfo 0)
            \<lparr> requestsThisMinute := 0, minuteStartTime := 61000, dailyRequests := 20 \<rparr>,
         thrown = None \<rparr>"
proof -
  let ?a = "(newRateLimitInfo 0) \<lparr> requestsThisMinute := 3, dailyRequests := 50 \<rparr>"
  let ?c = "(newRateLimitInfo 0) \<lparr> requestsThisMinute := 20, dailyRequests := 50 \<rparr>"
  let ?b = "(newRateLimitInfo 0) \<lparr> requestsThisMinute := 20, dailyRequests := 20 \<rparr>"
  note daily = checkRateLimits_free_tier [THEN conjunct1, rule_format]
  note minute = checkRateLimits_free_tier [THEN conjunct2, rule_format]
  have fa: "isFreeTier ?a" and fb: "isFreeTier ?b" and fc: "isFreeTier ?c"
    by (simp_all add: newRateLimitInfo_def)
  have ra: "resetWindows 30000 ?a = ?a" and rb: "resetWindows 30000 ?b = ?b"
    and rc: "resetWindows 30000 ?c = ?c"
    by (simp_all add: resetWindows_def newRateLimitInfo_def)
  have la: "dailyLimit ?a = 50" and lb: "dailyLimit ?b = 50" and lc: "dailyLimit ?c = 50"
    by (simp_all add: dailyLimit_def newRateLimitInfo_def)
  have 1: "checkRateLimits 30000 61000 ?a =
       \<lparr> slept = [], rateLimitInfo = ?a, thrown = Some (DailyRateLimitExceeded 50) \<rparr>"
    using daily [OF fa, of 30000 61000] by (simp add: ra la)
  have 3: "checkRateLimits 30000 61000 ?c =
       \<lparr> slept = [60000 - (30000 - minuteStartTime ?c) + 1000],
         rateLimitInfo = ?c \<lparr> requestsThisMinute := 0, minuteStartTime := 61000 \<rparr>,
         thrown = Some (DailyRateLimitExceeded 50) \<rparr>"
    using daily [OF fc, of 30000 61000] by (simp add: rc lc)
  have 2: "checkRateLimits 30000 61000 ?b =
       \<lparr> slept = [60000 - (30000 - minuteStartTime ?b) + 1000],
         rateLimitInfo = ?b \<lparr> requestsThisMinute := 0, minuteStartTime := 61000 \<rparr>,
         thrown = None \<rparr>"
    using minute [OF fb, of 30000 61000] by (simp add: rb lb)
  have m: "minuteStartTime ?b = 0" "minuteStartTime ?c = 0" by (simp_all add: newRateLimitInfo_def)
  have u: "?b \<lparr> requestsThisMinute := 0, minuteStartTime := 61000 \<rparr> =
           (newRateLimitInfo 0) \<lparr> requestsThisMinute := 0, minuteStartTime := 61000, dailyRequests := 20 \<rparr>"
    "?c \<lparr> requestsThisMinute := 0, minuteStartTime := 61000 \<rparr> =
           (newRateLimitInfo 0) \<lparr> requestsThisMinute := 0, minuteStartTime := 61000, dailyRequests := 50 \<rparr>"
    by (simp_all add: newRateLimitInfo_def)
  show ?thesis using fa 1 2 3 by (simp add: m u)
qed

lemma recordRequest_funpow:
  "(recordRequest ^^ n) info0 =
     info0 \<lparr> requestsThisMinute := requestsThisMinute info0 + int n,
             dailyRequests := dailyRequests info0 + int n \<rparr>"
  by (induction n) (simp_all add: recordRequest_def)

text \<open>
  C8 as stated fails when both limits are reached together: the error is thrown, but not
  without sleeping. Fifteen requests in each of
  two earlier minutes and twenty in the current one give 20 this minute and 50 today;
  the next check, 30 seconds into the window, sleeps 31000 ms and only then throws.
\<close>

theorem daily_limit_sleeps_first_counterexample:
  "requestsThisMinute
      ((recordRequest ^^ 20) (resetWindows 120000
         ((recordRequest ^^ 15) (resetWindows 60000
            ((recordRequest ^^ 15) (newRateLimitInfo 0)))))) = 20
   \<and> dailyRequests
      ((recordRequest ^^ 20) (resetWindows 120000
         ((recordRequest ^^ 15) (resetWindows 60000
            ((recordRequest ^^ 15) (newRateLimitInfo 0)))))) = 50
   \<and> slept (checkRateLimits 150000 181000
      ((recordRequest ^^ 20) (resetWindows 120000
         ((recordRequest ^^ 15) (resetWindows 60000
            ((recordRequest ^^ 15) (newRateLimitInfo 0))))))) = [31000]
   \<and> thrown (checkRateLimits 150000 181000
      ((recordRequest ^^ 20) (resetWindows 120000
         ((recordRequest ^^ 15) (resetWindows 60000
            ((recordRequest ^^ 15) (newRateLimitInfo 0))))))) = Some (DailyRateLimitExceeded 50)"
  by (simp add: recordRequest_funpow resetWindows_def checkRateLimits_def dailyLimit_def
      newRateLimitInfo_def Let_def)

section \<open>Properties of the retrying call\<close>

text \<open>
  C1 fails on the code. With the default budget (\<open>maxRetries = 3\<close>, \<open>baseDelay = 500\<close>)
  and a service that answers every request with status 402, \<open>callLLMWithRetry\<close> sends
  four requests and sleeps 500, 1000 and 2000 ms between them before it surfaces the
  insufficient-credit error: the \<open>throw\<close> for status 402 stands inside the \<open>try\<close> block
  whose \<open>catch\<close> retries whatever it catches.
\<close>

theorem insufficient_credit_is_retried:
  "callLLMWithRetry defaultConfig
      (\<lambda>_. \<lparr> clock = 0, clockAfterSleep = 0, fetched = Response 402 ''Payment Required'' None \<rparr>)
      (newRateLimitInfo 0) 0 =
     \<lparr> outcome = Inl InsufficientCredits,
       rateInfo = (newRateLimitInfo 0) \<lparr> requestsThisMinute := 4, dailyRequests := 4 \<rparr>,
       events = [RequestSent, Slept 500, RequestSent, Slept 1000, RequestSent, Slept 2000,
                 RequestSent] \<rparr>"
  by code_simp

section \<open>Properties of the concurrency limiter\<close>

lemma foldl_executorStep_nonpositive:
  assumes "limit (limiter ex) \<le> 0" and "running (limiter ex) = 0" and "inFlight ex = []"
  shows "foldl executorStep ex actions =
           \<lparr> limiter = (limiter ex) \<lparr> queue := queue (limiter ex) @ submitted actions \<rparr>,
             inFlight = [] \<rparr>"
  using assms
proof (induction actions arbitrary: ex)
  case Nil
  then show ?case by simp
next
  case (Cons a as)
  show ?case
  proof (cases a)
    case (Submit fn)
    let ?ex' = "\<lparr> limiter = (limiter ex) \<lparr> queue := queue (limiter ex) @ [fn] \<rparr>, inFlight = [] \<rparr>"
    have step: "executorStep ex (Submit fn) = ?ex'"
      using Cons.prems by (simp add: run_def noteStarted_def)
    have "foldl executorStep ?ex' as =
            \<lparr> limiter = (limiter ?ex') \<lparr> queue := queue (limiter ?ex') @ submitted as \<rparr>,
              inFlight = [] \<rparr>"
      using Cons.prems by (intro Cons.IH) simp_all
    then show ?thesis by (simp add: step Submit del: executorStep.simps)
  next
    case (Settle fn)
    have step: "executorStep ex (Settle fn) = ex"
      using Cons.prems by simp
    show ?thesis
      using Cons.IH[OF Cons.prems] by (simp add: step Settle del: executorStep.simps)
  qed
qed

text \<open>
  C9 fails on the code. A limit \<open>n \<le> 0\<close> is accepted by the constructor, and after any
  schedule every submitted task sits in the queue in submission order, none is running
  and none has ever been started: no error reaches the caller and the tasks are left
  unscheduled.
\<close>

theorem nonpositive_limit_never_starts:
  assumes "n \<le> 0"
  shows "limiter (runSchedule n actions) = \<lparr> limit = n, running = 0, queue = submitted actions \<rparr>
       \<and> inFlight (runSchedule n actions) = []"
proof -
  have "runSchedule n actions =
          \<lparr> limiter = (newConcurrencyLimiter n) \<lparr> queue := [] @ submitted actions \<rparr>,
            inFlight = [] \<rparr>"
    unfolding runSchedule_def
    using assms
    by (subst foldl_executorStep_nonpositive) (simp_all add: newConcurrencyLimiter_def)
  then show ?thesis by (simp add: newConcurrencyLimiter_def)
qed

text \<open>With \<open>DIFF_CONCURRENCY=0\<close> three submitted tasks stay queued for ever.\<close>

theorem nonpositive_limit_never_starts_witness:
  "(0::int) \<le> 0
   \<and> limiter (runSchedule 0 [Submit ''a'', Submit ''b'', Settle ''a'', Submit ''c'']) =
       \<lparr> limit = 0, running = 0, queue = [''a'', ''b'', ''c''] \<rparr>
   \<and> inFlight (runSchedule 0 [Submit ''a'', Submit ''b'', Settle ''a'', Submit ''c'']) = []"
  using nonpositive_limit_never_starts
          [of 0 "[Submit ''a'', Submit ''b'', Settle ''a'', Submit ''c'']"]
  by simp

section \<open>Properties of the cache file\<close>

text \<open>
  C2 (as amended). \<open>saveCache\<close> makes these file-system calls and no others: it tests
  whether the destination exists; if it does, it copies it to the fixed backup path
  \<open>.gca-cache.backup.json\<close>; then it writes the serialized record straight to the
  destination path (no temporary file and no rename). The backup is best effort: whether
  or not the copy fails, a write that completes leaves the serialized record at the
  destination and the save succeeds; and when the copy succeeds the backup holds the
  prior file.
\<close>

theorem saveCache_writes_in_place:
  "fsCalls (saveCache rt faults cache cachePath fs) =
      Access (getCacheFilePath rt cachePath)
      # (if fileExists fs (getCacheFilePath rt cachePath)
         then [CopyFile (getCacheFilePath rt cachePath) (resolve rt BACKUP_CACHE_FILE)] else [])
      @ [WriteFile (resolve rt (getCacheFilePath rt cachePath))
           (stringifyIndented rt (savedCache (saveCache rt faults cache cachePath fs)))]
   \<and> (writeStopsAfter faults = None \<longrightarrow>
        saveThrown (saveCache rt faults cache cachePath fs) = None
        \<and> fsAfter (saveCache rt faults cache cachePath fs) (resolve rt (getCacheFilePath rt cachePath))
            = Some (stringifyIndented rt (savedCache (saveCache rt faults cache cachePath fs))))
   \<and> (fileExists fs (getCacheFilePath rt cachePath) \<and> \<not> copyFails faults
        \<and> resolve rt BACKUP_CACHE_FILE \<noteq> resolve rt (getCacheFilePath rt cachePath) \<longrightarrow>
        fsAfter (saveCache rt faults cache cachePath fs) (resolve rt BACKUP_CACHE_FILE)
          = fs (getCacheFilePath rt cachePath))"
proof -
  have b: "getCacheFilePath rt (Some BACKUP_CACHE_FILE) = resolve rt BACKUP_CACHE_FILE"
    by (simp add: getCacheFilePath_def BACKUP_CACHE_FILE_def trim_def isWhiteSpace_def)
  show ?thesis
    by (cases "writeStopsAfter faults")
       (simp_all add: saveCache_def writeJsonFile_def Let_def b del: fun_upd_apply,
        simp_all)
qed

text \<open>
  With an existing cache file and a copy that fails, a completed write still succeeds
  and leaves the new record at the destination; with a copy that succeeds the backup
  path holds the old contents.
\<close>

theorem saveCache_writes_in_place_witness:
  "saveThrown
     (saveCache
        \<lparr> resolve = (\<lambda>p. if take 1 p = ''/'' then p else ''/repo/'' @ p),
          stringify = (\<lambda>c. ''{}''), stringifyIndented = (\<lambda>c. ''{ }''),
          byteLength = length, isoNow = ''2025-01-01T00:00:00.000Z'' \<rparr>
        \<lparr> copyFails = True, writeStopsAfter = None \<rparr>
        \<lparr> otherFields = (), metadata_cacheSize = 0, progress_lastUpdateTime = [] \<rparr>
        None
        (Map.empty(''/repo/.gca-cache.json'' \<mapsto> ''old''))) = None
   \<and> fsAfter
     (saveCache
        \<lparr> resolve = (\<lambda>p. if take 1 p = ''/'' then p else ''/repo/'' @ p),
          stringify = (\<lambda>c. ''{}''), stringifyIndented = (\<lambda>c. ''{ }''),
          byteLength = length, isoNow = ''2025-01-01T00:00:00.000Z'' \<rparr>
        \<lparr> copyFails = True, writeStopsAfter = None \<rparr>
        \<lparr> otherFields = (), metadata_cacheSize = 0, progress_lastUpdateTime = [] \<rparr>
        None
        (Map.empty(''/repo/.gca-cache.json'' \<mapsto> ''old''))) ''/repo/.gca-cache.json'' = Some ''{ }''
   \<and> fsAfter
     (saveCache
        \<lparr> resolve = (\<lambda>p. if take 1 p = ''/'' then p else ''/repo/'' @ p),
          stringify = (\<lambda>c. ''{}''), stringifyIndented = (\<lambda>c. ''{ }''),
          byteLength = length, isoNow = ''2025-01-01T00:00:00.000Z'' \<rparr>
        \<lparr> copyFails = True, writeStopsAfter = None \<rparr>
        \<lparr> otherFields = (), metadata_cacheSize = 0, progress_lastUpdateTime = [] \<rparr>
        None
        (Map.empty(''/repo/.gca-cache.json'' \<mapsto> ''old''))) ''/repo/.gca-cache.backup.json'' = None
   \<and> fsAfter
     (saveCache
        \<lparr> resolve = (\<lambda>p. if take 1 p = ''/'' then p else ''/repo/'' @ p),
          stringify = (\<lambda>c. ''{}''), stringifyIndented = (\<lambda>c. ''{ }''),
          byteLength = length, isoNow = ''2025-01-01T00:00:00.000Z'' \<rparr>
        \<lparr> copyFails = False, writeStopsAfter = None \<rparr>
        \<lparr> otherFields = (), metadata_cacheSize = 0, progress_lastUpdateTime = [] \<rparr>
        None
        (Map.empty(''/repo/.gca-cache.json'' \<mapsto> ''old''))) ''/repo/.gca-cache.backup.json'' = Some ''old''"
proof -
  have 1: "saveThrown
     (saveCache
        \<lparr> resolve = (\<lambda>p. if take 1 p = ''/'' then p else ''/repo/'' @ p),
          stringify = (\<lambda>c. ''{}''), stringifyIndented = (\<lambda>c. ''{ }''),
          byteLength = length, isoNow = ''2025-01-01T00:00:00.000Z'' \<rparr>
        \<lparr> copyFails = True, writeStopsAfter = None \<rparr>
        \<lparr> otherFields = (), metadata_cacheSize = 0, progress_lastUpdateTime = [] \<rparr>
        None
        (Map.empty(''/repo/.gca-cache.json'' \<mapsto> ''old''))) = None
   \<and> fsAfter
     (saveCache
        \<lparr> resolve = (\<lambda>p. if take 1 p = ''/'' then p else ''/repo/'' @ p),
          stringify = (\<lambda>c. ''{}''), stringifyIndented = (\<lambda>c. ''{ }''),
          byteLength = length, isoNow = ''2025-01-01T00:00:00.000Z'' \<rparr>
        \<lparr> copyFails = True, writeStopsAfter = None \<rparr>
        \<lparr> otherFields = (), metadata_cacheSize = 0, progress_lastUpdateTime = [] \<rparr>
        None
        (Map.empty(''/repo/.gca-cache.json'' \<mapsto> ''old''))) ''/repo/.gca-cache.json'' = Some ''{ }''"
    using saveCache_writes_in_place
     [of "\<lparr> resolve = (\<lambda>p. if take 1 p = ''/'' then p else ''/repo/'' @ p),
          stringify = (\<lambda>c. ''{}''), stringifyIndented = (\<lambda>c. ''{ }''),
          byteLength = length, isoNow = ''2025-01-01T00:00:00.000Z'' \<rparr>"
         "\<lparr> copyFails = True, writeStopsAfter = None \<rparr>"
         "\<lparr> otherFields = (), metadata_cacheSize = 0, progress_lastUpdateTime = [] \<rparr>"
         None
         "Map.empty(''/repo/.gca-cache.json'' \<mapsto> ''old'')"]
    by (simp add: getCacheFilePath_def DEFAULT_CACHE_FILE_def)
  have 2: "fsAfter
     (saveCache
        \<lparr> resolve = (\<lambda>p. if take 1 p = ''/'' then p else ''/repo/'' @ p),
          stringify = (\<lambda>c. ''{}''), stringifyIndented = (\<lambda>c. ''{ }''),
          byteLength = length, isoNow = ''2025-01-01T00:00:00.000Z'' \<rparr>
        \<lparr> copyFails = False, writeStopsAfter = None \<rparr>
        \<lparr> otherFields = (), metadata_cacheSize = 0, progress_lastUpdateTime = [] \<rparr>
        None
        (Map.empty(''/repo/.gca-cache.json'' \<mapsto> ''old''))) ''/repo/.gca-cache.backup.json'' = Some ''old''"
    using saveCache_writes_in_place
     [of "\<lparr> resolve = (\<lambda>p. if take 1 p = ''/'' then p else ''/repo/'' @ p),
          stringify = (\<lambda>c. ''{}''), stringifyIndented = (\<lambda>c. ''{ }''),
          byteLength = length, isoNow = ''2025-01-01T00:00:00.000Z'' \<rparr>"
         "\<lparr> copyFails = False, writeStopsAfter = None \<rparr>"
         "\<lparr> otherFields = (), metadata_cacheSize = 0, progress_lastUpdateTime = [] \<rparr>"
         None
         "Map.empty(''/repo/.gca-cache.json'' \<mapsto> ''old'')"]
    by (simp add: getCacheFilePath_def DEFAULT_CACHE_FILE_def BACKUP_CACHE_FILE_def
        fileExists_def)
  have 3: "fsAfter
     (saveCache
        \<lparr> resolve = (\<lambda>p. if take 1 p = ''/'' then p else ''/repo/'' @ p),
          stringify = (\<lambda>c. ''{}''), stringifyIndented = (\<lambda>c. ''{ }''),
          byteLength = length, isoNow = ''2025-01-01T00:00:00.000Z'' \<rparr>
        \<lparr> copyFails = True, writeStopsAfter = None \<rparr>
        \<lparr> otherFields = (), metadata_cacheSize = 0, progress_lastUpdateTime = [] \<rparr>
        None
        (Map.empty(''/repo/.gca-cache.json'' \<mapsto> ''old''))) ''/repo/.gca-cache.backup.json'' = None"
    by (simp add: saveCache_def writeJsonFile_def getCacheFilePath_def fileExists_def
        DEFAULT_CACHE_FILE_def BACKUP_CACHE_FILE_def trim_def isWhiteSpace_def Let_def)
  from 1 2 3 show ?thesis by simp
qed

text \<open>
  C2 as stated fails: saving over an existing cache file makes exactly three calls, none
  of them a rename and the write aimed at the destination itself; a write cut short after
  5 characters leaves those 5 characters at the destination.
\<close>

theorem saveCache_not_atomic_counterexample:
  "fsCalls
     (saveCache
        \<lparr> resolve = (\<lambda>p. if take 1 p = ''/'' then p else ''/repo/'' @ p),
          stringify = (\<lambda>c. ''{}''), stringifyIndented = (\<lambda>c. ''{ version: 1 }''),
          byteLength = length, isoNow = ''2025-01-01T00:00:00.000Z'' \<rparr>
        \<lparr> copyFails = False, writeStopsAfter = Some 5 \<rparr>
        \<lparr> otherFields = (), metadata_cacheSize = 0, progress_lastUpdateTime = [] \<rparr>
        None
        (Map.empty(''/repo/.gca-cache.json'' \<mapsto> ''old''))) =
     [Access ''/repo/.gca-cache.json'',
      CopyFile ''/repo/.gca-cache.json'' ''/repo/.gca-cache.backup.json'',
      WriteFile ''/repo/.gca-cache.json'' ''{ version: 1 }'']
   \<and> fsAfter
     (saveCache
        \<lparr> resolve = (\<lambda>p. if take 1 p = ''/'' then p else ''/repo/'' @ p),
          stringify = (\<lambda>c. ''{}''), stringifyIndented = (\<lambda>c. ''{ version: 1 }''),
          byteLength = length, isoNow = ''2025-01-01T00:00:00.000Z'' \<rparr>
        \<lparr> copyFails = False, writeStopsAfter = Some 5 \<rparr>
        \<lparr> otherFields = (), metadata_cacheSize = 0, progress_lastUpdateTime = [] \<rparr>
        None
        (Map.empty(''/repo/.gca-cache.json'' \<mapsto> ''old''))) ''/repo/.gca-cache.json'' = Some ''{ ver''"
  by (simp add: saveCache_def writeJsonFile_def getCacheFilePath_def fileExists_def
      DEFAULT_CACHE_FILE_def BACKUP_CACHE_FILE_def trim_def isWhiteSpace_def Let_def)

section \<open>Properties of the batch processing loop\<close>

lemma slice_from_cursor:
  assumes "c \<le> length xs"
  shows "slice xs (int c) e =
           take (nat ((if e < 0 then max (int (length xs) + e) 0 else min e (int (length xs))) - int c))
                (drop c xs)"
  using assms by (simp add: slice_def Let_def min_def)

lemma length_currentBatch:
  assumes "cursor st \<le> length commits"
  shows "cursor st + length (currentBatch commits st) \<le> length commits"
  using assms by (simp add: currentBatch_def slice_from_cursor)

lemma catchBlock_cursor:
  "cursor (catchBlock cfg batch st) =
     (if getCurrentBatchSize (adjustBatchSize cfg False False (batchManager st)) = minBatchSize cfg
      then cursor st + length batch else cursor st)"
  by (simp add: catchBlock_def Let_def)

lemma catchBlock_classifiedCommits:
  "classifiedCommits (catchBlock cfg batch st) = classifiedCommits st"
  by (simp add: catchBlock_def Let_def)

text \<open>What one iteration does to the cursor and to the results, branch by branch.\<close>

lemma loopBody_no_overflow_success:
  assumes "\<not> overflows cfg tiktoken (currentBatch commits st)"
    and "classify (world st) (currentBatch commits st) = (Inr r, w)"
  shows "cursor (loopBody cfg tiktoken classify commits st)
           = cursor st + length (currentBatch commits st)
       \<and> classifiedCommits (loopBody cfg tiktoken classify commits st)
           = classifiedCommits st @ r"
  using assms by (simp add: loopBody_def Let_def)

lemma loopBody_no_overflow_failure:
  assumes "\<not> overflows cfg tiktoken (currentBatch commits st)"
    and "classify (world st) (currentBatch commits st) = (Inl e, w)"
  shows "cursor (loopBody cfg tiktoken classify commits st)
           = (if getCurrentBatchSize (adjustBatchSize cfg False False (batchManager st))
                   = minBatchSize cfg
              then cursor st + length (currentBatch commits st) else cursor st)
       \<and> classifiedCommits (loopBody cfg tiktoken classify commits st) = classifiedCommits st"
  using assms by (simp add: loopBody_def Let_def catchBlock_cursor catchBlock_classifiedCommits)

lemma loopBody_overflow_retry:
  assumes "overflows cfg tiktoken (currentBatch commits st)"
    and "\<not> (getCurrentBatchSize (adjustBatchSize cfg False True (batchManager st)) = minBatchSize cfg
            \<and> length (currentBatch commits st) = 1)"
  shows "loopBody cfg tiktoken classify commits st
           = st \<lparr> batchManager := adjustBatchSize cfg False True (batchManager st) \<rparr>"
  using assms by (auto simp add: loopBody_def Let_def)

lemma loopBody_overflow_truncated_success:
  assumes "overflows cfg tiktoken (currentBatch commits st)"
    and "getCurrentBatchSize (adjustBatchSize cfg False True (batchManager st)) = minBatchSize cfg"
    and "length (currentBatch commits st) = 1"
    and "classify (world st) (map (\<lambda>c. c \<lparr> diff := take 200 (diff c) \<rparr>) (currentBatch commits st))
           = (Inr r, w)"
  shows "cursor (loopBody cfg tiktoken classify commits st)
           = cursor st + length (currentBatch commits st)
       \<and> classifiedCommits (loopBody cfg tiktoken classify commits st)
           = classifiedCommits st @ r"
  using assms by (simp add: loopBody_def Let_def)

lemma loopBody_overflow_truncated_failure:
  assumes "overflows cfg tiktoken (currentBatch commits st)"
    and "getCurrentBatchSize (adjustBatchSize cfg False True (batchManager st)) = minBatchSize cfg"
    and "length (currentBatch commits st) = 1"
    and "classify (world st) (map (\<lambda>c. c \<lparr> diff := take 200 (diff c) \<rparr>) (currentBatch commits st))
           = (Inl e, w)"
  shows "cursor (loopBody cfg tiktoken classify commits st)
           = (if getCurrentBatchSize
                   (adjustBatchSize cfg False False
                      (adjustBatchSize cfg False True (batchManager st))) = minBatchSize cfg
              then cursor st + length (currentBatch commits st) else cursor st)
       \<and> classifiedCommits (loopBody cfg tiktoken classify commits st) = classifiedCommits st"
  using assms by (simp add: loopBody_def Let_def catchBlock_cursor catchBlock_classifiedCommits)

lemma loopBody_cursor_cases:
  "cursor (loopBody cfg tiktoken classify commits st) = cursor st
   \<or> cursor (loopBody cfg tiktoken classify commits st)
        = cursor st + length (currentBatch commits st)"
proof (cases "overflows cfg tiktoken (currentBatch commits st)")
  case False
  obtain res w where c: "classify (world st) (currentBatch commits st) = (res, w)"
    by (cases "classify (world st) (currentBatch commits st)")
  show ?thesis
  proof (cases res)
    case (Inl e)
    with loopBody_no_overflow_failure[OF False, of classify e w] c show ?thesis by auto
  next
    case (Inr r)
    with loopBody_no_overflow_success[OF False, of classify r w] c show ?thesis by auto
  qed
next
  case True
  show ?thesis
  proof (cases "getCurrentBatchSize (adjustBatchSize cfg False True (batchManager st)) = minBatchSize cfg
                \<and> length (currentBatch commits st) = 1")
    case False
    from loopBody_overflow_retry[OF True False] show ?thesis by simp
  next
    case atMin: True
    obtain res w where c:
      "classify (world st) (map (\<lambda>c. c \<lparr> diff := take 200 (diff c) \<rparr>) (currentBatch commits st))
         = (res, w)"
      by (cases "classify (world st)
                   (map (\<lambda>c. c \<lparr> diff := take 200 (diff c) \<rparr>) (currentBatch commits st))")
    show ?thesis
    proof (cases res)
      case (Inl e)
      with loopBody_overflow_truncated_failure[OF True, of classify e w] atMin c
      show ?thesis by auto
    next
      case (Inr r)
      with loopBody_overflow_truncated_success[OF True, of classify r w] atMin c
      show ?thesis by auto
    qed
  qed
qed

lemma loopBody_cursor_bound:
  assumes "cursor st \<le> length commits"
  shows "cursor (loopBody cfg tiktoken classify commits st) \<le> length commits"
  using loopBody_cursor_cases[of cfg tiktoken classify commits st]
        length_currentBatch[OF assms] assms
  by auto

text \<open>
  When the callee always returns and keeps the hashes of the batch it was given, the
  results collected so far are exactly the commits before the cursor, in order.
\<close>

lemma currentBatch_hashes:
  assumes "cursor st \<le> length commits"
  shows "take (cursor st) (map hash commits) @ map hash (currentBatch commits st)
           = take (cursor st + length (currentBatch commits st)) (map hash commits)"
proof -
  obtain k where b: "currentBatch commits st = take k (drop (cursor st) commits)"
    using slice_from_cursor[OF assms] by (auto simp add: currentBatch_def)
  have "map hash (currentBatch commits st)
          = take (length (currentBatch commits st)) (drop (cursor st) (map hash commits))"
    by (simp add: b take_map drop_map min_def)
  then show ?thesis by (simp add: take_add)
qed

lemma loopBody_keeps_prefix:
  assumes ok: "\<And>w b. \<exists>r w'. classify w b = (Inr r, w') \<and> map hash r = map hash b"
    and c: "cursor st \<le> length commits"
    and h: "map hash (classifiedCommits st) = take (cursor st) (map hash commits)"
  shows "map hash (classifiedCommits (loopBody cfg tiktoken classify commits st))
           = take (cursor (loopBody cfg tiktoken classify commits st)) (map hash commits)"
proof (cases "overflows cfg tiktoken (currentBatch commits st)")
  case False
  obtain r w where r: "classify (world st) (currentBatch commits st) = (Inr r, w)"
    and hr: "map hash r = map hash (currentBatch commits st)"
    using ok by blast
  from loopBody_no_overflow_success[of cfg tiktoken commits st classify r w] False r
  show ?thesis
    by (simp add: h hr currentBatch_hashes[OF c])
next
  case True
  show ?thesis
  proof (cases "getCurrentBatchSize (adjustBatchSize cfg False True (batchManager st)) = minBatchSize cfg
                \<and> length (currentBatch commits st) = 1")
    case False
    from loopBody_overflow_retry[OF True False] show ?thesis by (simp add: h)
  next
    case atMin: True
    let ?tb = "map (\<lambda>c. c \<lparr> diff := take 200 (diff c) \<rparr>) (currentBatch commits st)"
    obtain r w where r: "classify (world st) ?tb = (Inr r, w)"
      and hr: "map hash r = map hash ?tb"
      using ok by blast
    have ht: "map hash ?tb = map hash (currentBatch commits st)" by (simp add: comp_def)
    have step: "cursor (loopBody cfg tiktoken classify commits st)
                  = cursor st + length (currentBatch commits st)
                \<and> classifiedCommits (loopBody cfg tiktoken classify commits st)
                  = classifiedCommits st @ r"
      using loopBody_overflow_truncated_success[of cfg tiktoken commits st classify r w]
            True atMin r
      by blast
    have "map hash (classifiedCommits st @ r)
            = take (cursor st) (map hash commits) @ map hash (currentBatch commits st)"
      by (simp only: map_append h hr ht)
    also have "\<dots> = take (cursor st + length (currentBatch commits st)) (map hash commits)"
      by (rule currentBatch_hashes[OF c])
    finally show ?thesis by (simp only: step)
  qed
qed

lemma processLoop_classifies_each_once:
  assumes ok: "\<And>w b. \<exists>r w'. classify w b = (Inr r, w') \<and> map hash r = map hash b"
  shows "cursor st \<le> length commits
     \<Longrightarrow> map hash (classifiedCommits st) = take (cursor st) (map hash commits)
     \<Longrightarrow> processLoop cfg tiktoken classify commits fuel st = Some st'
     \<Longrightarrow> map hash (classifiedCommits st') = map hash commits"
proof (induction fuel arbitrary: st)
  case 0
  then show ?case by (simp split: if_splits)
next
  case (Suc fuel)
  show ?case
  proof (cases "cursor st < length commits")
    case False
    with Suc.prems show ?thesis by simp
  next
    case True
    with Suc.prems(3)
    have run: "processLoop cfg tiktoken classify commits fuel
                 (loopBody cfg tiktoken classify commits st) = Some st'"
      by simp
    show ?thesis
      using loopBody_cursor_bound[OF Suc.prems(1)]
            loopBody_keeps_prefix[OF ok Suc.prems(1,2)] run
      by (rule Suc.IH)
  qed
qed

lemma classifyCommitsBatch_hashes:
  "map hash (fst (classifyCommitsBatch cfg parseClassifications env rate commits)) = map hash commits"
  by (simp add: classifyCommitsBatch_def Let_def unclassified_def comp_def
      split: sum.splits option.splits)

lemma classifyCall_returns:
  "\<exists>r w'. classifyCall cfg parseClassifications envs w b = (Inr r, w') \<and> map hash r = map hash b"
proof -
  obtain results rate
    where c: "classifyCommitsBatch cfg parseClassifications (envs (snd w)) (fst w) b = (results, rate)"
    by (cases "classifyCommitsBatch cfg parseClassifications (envs (snd w)) (fst w) b")
  have "map hash results = map hash b"
    using classifyCommitsBatch_hashes[of cfg parseClassifications "envs (snd w)" "fst w" b]
    by (simp add: c)
  then show ?thesis by (simp add: classifyCall_def c)
qed

text \<open>
  C4. In one iteration of the loop the cursor advances by the length of the batch
  actually sliced, \<open>commits.slice(i, i + batchSize).length\<close>, when the batch is
  classified, when a single overflowing commit is classified with its diff truncated, and
  when a failed batch is skipped at the minimum size; a pre-flight overflow that is
  retried leaves the cursor and the results as they were. The cursor never moves in any
  other way and never passes the end of the list. With the program's own callee, which
  always returns, a finished run has classified every commit exactly once, in order.
\<close>

theorem cursor_advances_by_batch_length:
  "(\<not> overflows cfg tiktoken (currentBatch commits st)
      \<and> classify (world st) (currentBatch commits st) = (Inr r, w)
    \<longrightarrow> cursor (loopBody cfg tiktoken classify commits st)
           = cursor st + length (currentBatch commits st)
        \<and> classifiedCommits (loopBody cfg tiktoken classify commits st)
           = classifiedCommits st @ r)
   \<and> (overflows cfg tiktoken (currentBatch commits st)
      \<and> getCurrentBatchSize (adjustBatchSize cfg False True (batchManager st)) = minBatchSize cfg
      \<and> length (currentBatch commits st) = 1
      \<and> classify (world st) (map (\<lambda>c. c \<lparr> diff := take 200 (diff c) \<rparr>) (currentBatch commits st))
           = (Inr r, w)
    \<longrightarrow> cursor (loopBody cfg tiktoken classify commits st)
           = cursor st + length (currentBatch commits st)
        \<and> classifiedCommits (loopBody cfg tiktoken classify commits st)
           = classifiedCommits st @ r)
   \<and> (\<not> overflows cfg tiktoken (currentBatch commits st)
      \<and> classify (world st) (currentBatch commits st) = (Inl e, w)
      \<and> getCurrentBatchSize (adjustBatchSize cfg False False (batchManager st)) = minBatchSize cfg
    \<longrightarrow> cursor (loopBody cfg tiktoken classify commits st)
           = cursor st + length (currentBatch commits st)
        \<and> classifiedCommits (loopBody cfg tiktoken classify commits st) = classifiedCommits st)
   \<and> (overflows cfg tiktoken (currentBatch commits st)
      \<and> \<not> (getCurrentBatchSize (adjustBatchSize cfg False True (batchManager st)) = minBatchSize cfg
             \<and> length (currentBatch commits st) = 1)
    \<longrightarrow> cursor (loopBody cfg tiktoken classify commits st) = cursor st
        \<and> classifiedCommits (loopBody cfg tiktoken classify commits st) = classifiedCommits st)
   \<and> (cursor (loopBody cfg tiktoken classify commits st) = cursor st
      \<or> cursor (loopBody cfg tiktoken classify commits st)
           = cursor st + length (currentBatch commits st))
   \<and> (cursor st \<le> length commits
    \<longrightarrow> cursor (loopBody cfg tiktoken classify commits st) \<le> length commits)
   \<and> (processCommitsInAdaptiveBatches cfg tiktoken (classifyCall cfg parseClassifications envs)
         fuel commits w0 = Some results
    \<longrightarrow> map hash results = map hash commits)"
proof -
  have global: "map hash results = map hash commits"
    if run: "processCommitsInAdaptiveBatches cfg tiktoken (classifyCall cfg parseClassifications envs)
               fuel commits w0 = Some results"
  proof -
    from run obtain st' where
      fin: "processLoop cfg tiktoken (classifyCall cfg parseClassifications envs) commits fuel
              (initialLoopState cfg w0) = Some st'"
      and res: "results = classifiedCommits st'"
      by (auto simp add: processCommitsInAdaptiveBatches_def)
    have "map hash (classifiedCommits st') = map hash commits"
      using classifyCall_returns _ _ fin
      by (rule processLoop_classifies_each_once) (simp_all add: initialLoopState_def)
    then show ?thesis by (simp add: res)
  qed
  show ?thesis
    using loopBody_no_overflow_success[of cfg tiktoken commits st classify r w]
          loopBody_overflow_truncated_success[of cfg tiktoken commits st classify r w]
          loopBody_no_overflow_failure[of cfg tiktoken commits st classify e w]
          loopBody_overflow_retry[of cfg tiktoken commits st classify]
          loopBody_cursor_cases[of cfg tiktoken classify commits st]
          loopBody_cursor_bound[of st commits cfg tiktoken classify]
          global
    by (intro conjI impI) simp_all
qed

text \<open>
  Three small commits under the default configuration: the requested batch size is 16,
  the batch sliced has 3 commits, and the cursor goes from 0 to 3. Two commits with
  messages of 60000 characters overflow and are retried with the cursor left at 0. At
  batch size 3, a single commit with a message of 120000 characters overflows, brings the
  size to the minimum and is classified with its diff truncated, the cursor going to 1;
  and a failed batch of three small commits brings the size to the minimum and is
  skipped, the cursor going to 3. A run with the program's own callee (the service
  answers 200 with a body that does not parse) returns the three commits in order.
\<close>

theorem cursor_advances_by_batch_length_witness:
  "getCurrentBatchSize (batchManager (initialLoopState defaultConfig ())) = 16
   \<and> cursor (loopBody defaultConfig (\<lambda>model text. None) (\<lambda>w b. (Inr (map unclassified b), w))
         [\<lparr> hash = ''a1'', message = ''Fix bug'', diff = ''M a.ts'' \<rparr>,
          \<lparr> hash = ''b2'', message = ''Add test'', diff = ''A b.ts'' \<rparr>,
          \<lparr> hash = ''c3'', message = ''Update docs'', diff = ''M c.md'' \<rparr>]
         (initialLoopState defaultConfig ())) = 3
   \<and> cursor (loopBody defaultConfig (\<lambda>model text. None) (\<lambda>w b. (Inr (map unclassified b), w))
         [\<lparr> hash = ''a1'', message = replicate 60000 (CHR ''a''), diff = [] \<rparr>,
          \<lparr> hash = ''b2'', message = replicate 60000 (CHR ''a''), diff = [] \<rparr>]
         (initialLoopState defaultConfig ())) = 0
   \<and> cursor (loopBody defaultConfig (\<lambda>model text. None) (\<lambda>w b. (Inr (map unclassified b), w))
         [\<lparr> hash = ''a1'', message = replicate 120000 (CHR ''a''), diff = [] \<rparr>]
         ((initialLoopState defaultConfig ())
            \<lparr> batchManager := (newBatchManager defaultConfig) \<lparr> currentBatchSize := 3 \<rparr> \<rparr>)) = 1
   \<and> cursor (loopBody defaultConfig (\<lambda>model text. None) (\<lambda>w b. (Inl FetchFailed, w))
         [\<lparr> hash = ''a1'', message = ''Fix bug'', diff = ''M a.ts'' \<rparr>,
          \<lparr> hash = ''b2'', message = ''Add test'', diff = ''A b.ts'' \<rparr>,
          \<lparr> hash = ''c3'', message = ''Update docs'', diff = ''M c.md'' \<rparr>]
         ((initialLoopState defaultConfig ())
            \<lparr> batchManager := (newBatchManager defaultConfig) \<lparr> currentBatchSize := 3 \<rparr> \<rparr>)) = 3
   \<and> map_option (map hash)
        (processCommitsInAdaptiveBatches defaultConfig (\<lambda>model text. None)
          (classifyCall defaultConfig (\<lambda>responseContent. None)
             (\<lambda>k retryCount. \<lparr> clock = 0, clockAfterSleep = 0,
                                fetched = Response 200 ''OK'' (Some ''not json'') \<rparr>))
          1
          [\<lparr> hash = ''a1'', message = ''Fix bug'', diff = ''M a.ts'' \<rparr>,
           \<lparr> hash = ''b2'', message = ''Add test'', diff = ''A b.ts'' \<rparr>,
           \<lparr> hash = ''c3'', message = ''Update docs'', diff = ''M c.md'' \<rparr>]
          (newRateLimitInfo 0, 0))
       = Some [''a1'', ''b2'', ''c3'']"
proof -
  let ?tk = "\<lambda>(model :: string) (text :: string). (None :: nat option)"
  let ?cl = "\<lambda>(w :: unit) (b :: EnrichedCommit list). (Inr (map unclassified b) :: error + ClassifiedCommit list, w)"
  let ?C = "[\<lparr> hash = ''a1'', message = ''Fix bug'', diff = ''M a.ts'' \<rparr>,
             \<lparr> hash = ''b2'', message = ''Add test'', diff = ''A b.ts'' \<rparr>,
             \<lparr> hash = ''c3'', message = ''Update docs'', diff = ''M c.md'' \<rparr>]"
  let ?P = "[\<lparr> hash = ''a1'', message = replicate 60000 (CHR ''a''), diff = [] \<rparr>,
             \<lparr> hash = ''b2'', message = replicate 60000 (CHR ''a''), diff = [] \<rparr>]"
  let ?st = "initialLoopState defaultConfig ()"
  let ?S = "[\<lparr> hash = ''a1'', message = replicate 120000 (CHR ''a''), diff = [] \<rparr>]"
  let ?st3 = "(initialLoopState defaultConfig ())
                \<lparr> batchManager := (newBatchManager defaultConfig) \<lparr> currentBatchSize := 3 \<rparr> \<rparr>"
  let ?fail = "\<lambda>(w :: unit) (b :: EnrichedCommit list). (Inl FetchFailed :: error + ClassifiedCommit list, w)"
  let ?call = "classifyCall defaultConfig (\<lambda>responseContent. None)
             (\<lambda>k retryCount. \<lparr> clock = 0, clockAfterSleep = 0,
                                fetched = Response 200 ''OK'' (Some ''not json'') \<rparr>)"
  have size: "getCurrentBatchSize (batchManager ?st) = 16"
    by (simp add: initialLoopState_def newBatchManager_def getCurrentBatchSize_def
        defaultConfig_def)
  have cur: "cursor ?st = 0" and w: "world ?st = ()"
    by (simp_all add: initialLoopState_def)
  have bC: "currentBatch ?C ?st = ?C"
    by (simp add: currentBatch_def size cur slice_def)
  have bP: "currentBatch ?P ?st = ?P"
    by (simp add: currentBatch_def size cur slice_def)
  have lenC: "length (createClassificationPrompt ?C) = 720"
    by (simp add: createClassificationPrompt_def promptHeader_def promptEntry_def
        promptFooter_def enumerate_eq_zip upt_rec)
  have nov: "\<not> overflows defaultConfig ?tk ?C"
    unfolding overflows_def estimateTokensAccurately_def
    by (simp add: lenC defaultConfig_def)
  have lenP: "length (createClassificationPrompt ?P) = 120638"
    by (simp add: createClassificationPrompt_def promptHeader_def promptEntry_def
        promptFooter_def enumerate_eq_zip upt_rec)
  have ov: "overflows defaultConfig ?tk ?P"
    unfolding overflows_def estimateTokensAccurately_def
    by (simp add: lenP defaultConfig_def)
  have notMin: "getCurrentBatchSize (adjustBatchSize defaultConfig False True (batchManager ?st))
                  \<noteq> minBatchSize defaultConfig"
    by code_simp
  have run: "processCommitsInAdaptiveBatches defaultConfig ?tk ?call 1 ?C (newRateLimitInfo 0, 0)
               = Some (map unclassified ?C)"
    by code_simp
  have size3: "getCurrentBatchSize (batchManager ?st3) = 3"
    by (simp add: getCurrentBatchSize_def)
  have cur3: "cursor ?st3 = 0" and w3: "world ?st3 = ()"
    by (simp_all add: initialLoopState_def)
  have bS: "currentBatch ?S ?st3 = ?S"
    by (simp add: currentBatch_def getCurrentBatchSize_def initialLoopState_def slice_def)
  have bC3: "currentBatch ?C ?st3 = ?C"
    by (simp add: currentBatch_def getCurrentBatchSize_def initialLoopState_def slice_def)
  have lenS: "length (createClassificationPrompt ?S) = 120600"
    by (simp add: createClassificationPrompt_def promptHeader_def promptEntry_def
        promptFooter_def enumerate_eq_zip upt_rec)
  have ovS: "overflows defaultConfig ?tk ?S"
    unfolding overflows_def estimateTokensAccurately_def
    by (simp add: lenS defaultConfig_def)
  have shrunk: "getCurrentBatchSize (adjustBatchSize defaultConfig False True (batchManager ?st3))
                  = minBatchSize defaultConfig"
    by code_simp
  have decayed: "getCurrentBatchSize (adjustBatchSize defaultConfig False False (batchManager ?st3))
                  = minBatchSize defaultConfig"
    by code_simp
  note success = cursor_advances_by_batch_length [THEN conjunct1, rule_format]
  note truncated = cursor_advances_by_batch_length [THEN conjunct2, THEN conjunct1, rule_format]
  note skipped = cursor_advances_by_batch_length
                   [THEN conjunct2, THEN conjunct2, THEN conjunct1, rule_format]
  note retry = cursor_advances_by_batch_length
                 [THEN conjunct2, THEN conjunct2, THEN conjunct2, THEN conjunct1, rule_format]
  note finished = cursor_advances_by_batch_length
                    [THEN conjunct2, THEN conjunct2, THEN conjunct2, THEN conjunct2,
                     THEN conjunct2, THEN conjunct2, rule_format]
  have "cursor (loopBody defaultConfig ?tk ?cl ?C ?st) = cursor ?st + length (currentBatch ?C ?st)"
    using success [of defaultConfig ?tk ?C ?st ?cl "map unclassified ?C" "()"] nov
    by (simp add: bC w)
  then have 1: "cursor (loopBody defaultConfig ?tk ?cl ?C ?st) = 3"
    by (simp add: bC cur)
  have "cursor (loopBody defaultConfig ?tk ?cl ?P ?st) = cursor ?st"
    using retry [of defaultConfig ?tk ?P ?st ?cl] ov notMin
    by (simp add: bP)
  then have 2: "cursor (loopBody defaultConfig ?tk ?cl ?P ?st) = 0"
    by (simp add: cur)
  have 3: "map hash (map unclassified ?C) = map hash ?C"
    using run by (rule finished)
  have "cursor (loopBody defaultConfig ?tk ?cl ?S ?st3) = cursor ?st3 + length (currentBatch ?S ?st3)"
    using truncated [of defaultConfig ?tk ?S ?st3 ?cl
                        "map unclassified (map (\<lambda>c. c \<lparr> diff := take 200 (diff c) \<rparr>) ?S)" "()"]
          ovS shrunk
    by (simp add: bS w3)
  then have 5: "cursor (loopBody defaultConfig ?tk ?cl ?S ?st3) = 1"
    by (simp add: bS cur3)
  have "cursor (loopBody defaultConfig ?tk ?fail ?C ?st3) = cursor ?st3 + length (currentBatch ?C ?st3)"
    using skipped [of defaultConfig ?tk ?C ?st3 ?fail FetchFailed "()"] nov decayed
    by (simp add: bC3 w3)
  then have 6: "cursor (loopBody defaultConfig ?tk ?fail ?C ?st3) = 3"
    by (simp add: bC3 cur3)
  have 4: "map hash ?C = [''a1'', ''b2'', ''c3'']" by simp
  from size 1 2 3 4 5 6 run show ?thesis by simp
qed

text \<open>
  C3 fails on the code. Under the default configuration (\<open>minBatchSize = 2\<close>,
  threshold 30000 tokens, and a model name the tokenizer does not know, so that the
  estimate is \<open>ceil(length / 3.5)\<close>), two commits whose messages have 60000 characters
  each give a prompt of 120638 characters, estimated at 34468 tokens. The batch of both
  overflows at every size; once the size is at the minimum 2 the guard does not apply,
  because the batch has two commits and not one, and the loop retries the same batch for
  ever: whatever the fuel, it has not returned.
\<close>

theorem overflowing_pair_never_terminates:
  "\<forall>fuel. processCommitsInAdaptiveBatches defaultConfig (\<lambda>model text. None) classify fuel
      [\<lparr> hash = ''a1'', message = replicate 60000 (CHR ''a''), diff = [] \<rparr>,
       \<lparr> hash = ''b2'', message = replicate 60000 (CHR ''a''), diff = [] \<rparr>] w
     = None"
proof -
  let ?tk = "\<lambda>(model :: string) (text :: string). (None :: nat option)"
  let ?P = "[\<lparr> hash = ''a1'', message = replicate 60000 (CHR ''a''), diff = [] \<rparr>,
             \<lparr> hash = ''b2'', message = replicate 60000 (CHR ''a''), diff = [] \<rparr>]"
  have lenP: "length (createClassificationPrompt ?P) = 120638"
    by (simp add: createClassificationPrompt_def promptHeader_def promptEntry_def
        promptFooter_def enumerate_eq_zip upt_rec)
  have ov: "overflows defaultConfig ?tk ?P"
    unfolding overflows_def estimateTokensAccurately_def
    by (simp add: lenP defaultConfig_def)
  have stuck: "processLoop defaultConfig ?tk classify ?P fuel st = None"
    if "cursor st = 0" and "2 \<le> currentBatchSize (batchManager st)"
    for fuel and st :: "'a LoopState"
    using that
  proof (induction fuel arbitrary: st)
    case 0
    then show ?case by simp
  next
    case (Suc fuel)
    have b: "currentBatch ?P st = ?P"
      using Suc.prems by (simp add: currentBatch_def slice_def getCurrentBatchSize_def)
    have step: "loopBody defaultConfig ?tk classify ?P st
                  = st \<lparr> batchManager := adjustBatchSize defaultConfig False True (batchManager st) \<rparr>"
      using ov by (intro loopBody_overflow_retry) (simp_all add: b)
    have "2 \<le> currentBatchSize (adjustBatchSize defaultConfig False True (batchManager st))"
      by (simp add: adjustBatchSize_def defaultConfig_def)
    then have "processLoop defaultConfig ?tk classify ?P fuel
                 (st \<lparr> batchManager := adjustBatchSize defaultConfig False True (batchManager st) \<rparr>)
               = None"
      using Suc.prems(1) by (intro Suc.IH) simp_all
    then show ?case using Suc.prems(1) by (simp add: step)
  qed
  have "processLoop defaultConfig ?tk classify ?P fuel (initialLoopState defaultConfig w) = None"
    for fuel
    by (rule stuck) (simp_all add: initialLoopState_def newBatchManager_def defaultConfig_def)
  then show ?thesis by (simp add: processCommitsInAdaptiveBatches_def)
qed

end
